theory Spec2Isabelle
  imports Complex_Main
begin

section \<open>Scrublet doublet detection: a shallow embedding of core.py and its wrappers\<close>

text \<open>
  The development follows \<^verbatim>\<open>scanpy/preprocessing/_scrublet/core.py\<close> (class
  \<^verbatim>\<open>Scrublet\<close>) and \<^verbatim>\<open>scanpy/preprocessing/_scrublet/__init__.py\<close>.
  Python objects are attribute dictionaries, exceptions are values of a sum type, and the
  process-wide numpy random generator is an explicit state that is threaded through the
  calls. Functions of numpy, skimage and of modules of the package that are not part of
  the sources at hand (\<^verbatim>\<open>utils.subsample_counts\<close>, \<^verbatim>\<open>utils.get_knn_graph\<close>)
  are parameters, collected in one record.
\<close>

subsection \<open>Exceptions\<close>

datatype error =
    AttributeError
  | TypeError
  | ValueError
  | IndexError
  | OverflowError
  | KeyError
  | RuntimeError

definition bind_res :: "error + 'a \<Rightarrow> ('a \<Rightarrow> error + 'b) \<Rightarrow> error + 'b" where
  "bind_res m f = (case m of Inl e \<Rightarrow> Inl e | Inr v \<Rightarrow> f v)"

primrec map_res :: "('a \<Rightarrow> error + 'b) \<Rightarrow> 'a list \<Rightarrow> error + 'b list" where
  "map_res f [] = Inr []"
| "map_res f (x # xs) =
     (case f x of
        Inl e \<Rightarrow> Inl e
      | Inr y \<Rightarrow> (case map_res f xs of Inl e \<Rightarrow> Inl e | Inr ys \<Rightarrow> Inr (y # ys)))"

subsection \<open>Floating-point values\<close>

text \<open>
  A float64 is a finite real, an infinity or not-a-number. The special values follow
  IEEE 754 as numpy scalars and arrays implement it (a division by zero yields an
  infinity or not-a-number, it does not raise). Rounding of finite results, overflow of
  finite results to infinity and the sign of zero are idealised: finite arithmetic is
  exact.
\<close>

datatype npfloat = Fin real | PInf | NInf | NaN

fun inf_of_sign :: "real \<Rightarrow> npfloat" where
  "inf_of_sign s = (if 0 < s then PInf else if s < 0 then NInf else NaN)"

fun sign_of :: "npfloat \<Rightarrow> real" where
  "sign_of (Fin a) = sgn a"
| "sign_of PInf = 1"
| "sign_of NInf = - 1"
| "sign_of NaN = 0"

fun f_neg :: "npfloat \<Rightarrow> npfloat" where
  "f_neg (Fin a) = Fin (- a)"
| "f_neg PInf = NInf"
| "f_neg NInf = PInf"
| "f_neg NaN = NaN"

fun f_add :: "npfloat \<Rightarrow> npfloat \<Rightarrow> npfloat" where
  "f_add (Fin a) (Fin b) = Fin (a + b)"
| "f_add NaN y = NaN"
| "f_add x NaN = NaN"
| "f_add PInf NInf = NaN"
| "f_add NInf PInf = NaN"
| "f_add PInf y = PInf"
| "f_add x PInf = PInf"
| "f_add NInf y = NInf"
| "f_add x NInf = NInf"

definition f_sub :: "npfloat \<Rightarrow> npfloat \<Rightarrow> npfloat" where
  "f_sub x y = f_add x (f_neg y)"

fun f_mul :: "npfloat \<Rightarrow> npfloat \<Rightarrow> npfloat" where
  "f_mul (Fin a) (Fin b) = Fin (a * b)"
| "f_mul NaN y = NaN"
| "f_mul x NaN = NaN"
| "f_mul x y = inf_of_sign (sign_of x * sign_of y)"

fun f_div :: "npfloat \<Rightarrow> npfloat \<Rightarrow> npfloat" where
  "f_div (Fin a) (Fin b) = (if b \<noteq> 0 then Fin (a / b) else inf_of_sign a)"
| "f_div NaN y = NaN"
| "f_div x NaN = NaN"
| "f_div (Fin a) y = Fin 0"
| "f_div x (Fin b) = (if 0 \<le> b then x else f_neg x)"
| "f_div x y = NaN"

fun f_sqrt :: "npfloat \<Rightarrow> npfloat" where
  "f_sqrt (Fin a) = (if 0 \<le> a then Fin (sqrt a) else NaN)"
| "f_sqrt PInf = PInf"
| "f_sqrt NInf = NaN"
| "f_sqrt NaN = NaN"

definition f_square :: "npfloat \<Rightarrow> npfloat" where
  "f_square x = f_mul x x"

fun f_less :: "npfloat \<Rightarrow> npfloat \<Rightarrow> bool" where
  "f_less (Fin a) (Fin b) = (a < b)"
| "f_less NaN y = False"
| "f_less x NaN = False"
| "f_less x PInf = (x \<noteq> PInf)"
| "f_less NInf y = (y \<noteq> NInf)"
| "f_less x y = False"

definition is_finite :: "npfloat \<Rightarrow> bool" where
  "is_finite x = (case x of Fin a \<Rightarrow> True | _ \<Rightarrow> False)"

text \<open>Python's \<^verbatim>\<open>int(x)\<close> truncates towards zero and raises on the special values.\<close>

fun py_int :: "npfloat \<Rightarrow> error + int" where
  "py_int (Fin a) = Inr (if 0 \<le> a then \<lfloor>a\<rfloor> else \<lceil>a\<rceil>)"
| "py_int NaN = Inl ValueError"
| "py_int x = Inl OverflowError"

text \<open>Python's and numpy's \<^verbatim>\<open>round\<close>: to the nearest integer, a tie goes to the even one.\<close>

definition round_half_even :: "real \<Rightarrow> int" where
  "round_half_even x =
     (let f = \<lfloor>x\<rfloor>; d = x - of_int f
      in if d < 1 / 2 then f else if 1 / 2 < d then f + 1 else if even f then f else f + 1)"

fun py_int_round :: "npfloat \<Rightarrow> error + int" where
  "py_int_round (Fin a) = Inr (round_half_even a)"
| "py_int_round NaN = Inl ValueError"
| "py_int_round x = Inl OverflowError"

subsection \<open>Values and objects\<close>

datatype pyval =
    PyNone
  | PyBool bool
  | PyInt int
  | PyFloat npfloat
  | IntArr0 int
  | IntArr "int list"
  | FloatArr "npfloat list"
  | BoolArr "bool list"
  | IntMat "int list list"
  | FloatMat "npfloat list list"
  | PyList "pyval list"
  | PyDict "(string \<times> pyval) list"

text \<open>An object is its attribute dictionary; reading an attribute that was never
  assigned raises \<^verbatim>\<open>AttributeError\<close>.\<close>

type_synonym obj = "string \<rightharpoonup> pyval"

definition getattr :: "obj \<Rightarrow> string \<Rightarrow> error + pyval" where
  "getattr s a = (case s a of None \<Rightarrow> Inl AttributeError | Some v \<Rightarrow> Inr v)"

definition hasattr :: "obj \<Rightarrow> string \<Rightarrow> bool" where
  "hasattr s a = (s a \<noteq> None)"

fun as_float :: "pyval \<Rightarrow> error + npfloat" where
  "as_float (PyFloat x) = Inr x"
| "as_float (PyInt n) = Inr (Fin (of_int n))"
| "as_float v = Inl TypeError"

fun as_int :: "pyval \<Rightarrow> error + int" where
  "as_int (PyInt n) = Inr n"
| "as_int v = Inl TypeError"

fun as_float_arr :: "pyval \<Rightarrow> error + npfloat list" where
  "as_float_arr (FloatArr xs) = Inr xs"
| "as_float_arr v = Inl TypeError"

fun as_int_mat :: "pyval \<Rightarrow> error + int list list" where
  "as_int_mat (IntMat m) = Inr m"
| "as_int_mat v = Inl TypeError"

fun as_float_mat :: "pyval \<Rightarrow> error + npfloat list list" where
  "as_float_mat (FloatMat m) = Inr m"
| "as_float_mat v = Inl TypeError"

text \<open>numpy indexing with one integer: a negative index counts from the end, an index
  out of range raises \<^verbatim>\<open>IndexError\<close>.\<close>

definition np_index :: "'a list \<Rightarrow> int \<Rightarrow> error + 'a" where
  "np_index xs i =
     (if 0 \<le> i \<and> i < int (length xs) then Inr (xs ! nat i)
      else if i < 0 \<and> - int (length xs) \<le> i then Inr (xs ! nat (int (length xs) + i))
      else Inl IndexError)"

text \<open>\<^verbatim>\<open>a[ix]\<close> with an integer array \<^verbatim>\<open>ix\<close>, and the column \<^verbatim>\<open>a[:, j]\<close>.\<close>

definition np_take :: "'a list \<Rightarrow> int list \<Rightarrow> error + 'a list" where
  "np_take xs ix = map_res (np_index xs) ix"

text \<open>Indexing a stored integer array; a zero-dimensional array (\<open>IntArr0\<close>) cannot be
  indexed.\<close>

fun index_int_arr :: "pyval \<Rightarrow> int list \<Rightarrow> error + int list" where
  "index_int_arr (IntArr xs) ix = np_take xs ix"
| "index_int_arr (IntArr0 x) ix = Inl IndexError"
| "index_int_arr v ix = Inl TypeError"

definition np_column :: "'a list list \<Rightarrow> int \<Rightarrow> error + 'a list" where
  "np_column m j = map_res (\<lambda>row. np_index row j) m"

text \<open>Element-wise sum of two matrices, and of two vectors, of the same shape.\<close>

definition vec_add :: "int list \<Rightarrow> int list \<Rightarrow> int list" where
  "vec_add xs ys = map2 (+) xs ys"

definition mat_add :: "int list list \<Rightarrow> int list list \<Rightarrow> int list list" where
  "mat_add a b = map2 vec_add a b"

definition shape0 :: "'a list list \<Rightarrow> nat" where
  "shape0 m = length m"

definition shape1 :: "'a list list \<Rightarrow> nat" where
  "shape1 m = (case m of [] \<Rightarrow> 0 | row # _ \<Rightarrow> length row)"

subsection \<open>Annotated data matrices\<close>

text \<open>An \<^verbatim>\<open>AnnData\<close> object: the matrix, its layers, the per-row annotations
  \<^verbatim>\<open>obs\<close> (one column per key), \<^verbatim>\<open>obsm\<close> and the unstructured annotations
  \<^verbatim>\<open>uns\<close>.\<close>

record anndata =
  ad_X :: pyval
  ad_layers :: "string \<rightharpoonup> pyval"
  ad_obs :: "string \<rightharpoonup> pyval"
  ad_obsm :: "string \<rightharpoonup> pyval"
  ad_uns :: "string \<rightharpoonup> pyval"

definition AnnData :: "pyval \<Rightarrow> anndata" where
  "AnnData x = \<lparr> ad_X = x, ad_layers = Map.empty, ad_obs = Map.empty,
                 ad_obsm = Map.empty, ad_uns = Map.empty \<rparr>"

definition ad_n_obs :: "anndata \<Rightarrow> nat" where
  "ad_n_obs a = (case ad_X a of IntMat m \<Rightarrow> length m | FloatMat m \<Rightarrow> length m | _ \<Rightarrow> 0)"

text \<open>\<^verbatim>\<open>adata.obs[key] = v\<close>: an array must have one entry per row, a scalar is repeated
  for every row.\<close>

definition obs_assign :: "anndata \<Rightarrow> string \<Rightarrow> pyval \<Rightarrow> error + anndata" where
  "obs_assign a key v =
     (let n = ad_n_obs a;
          store = (\<lambda>col. Inr (a\<lparr>ad_obs := (ad_obs a)(key \<mapsto> col)\<rparr>))
      in case v of
           FloatArr xs \<Rightarrow> if length xs = n then store v else Inl ValueError
         | BoolArr xs \<Rightarrow> if length xs = n then store v else Inl ValueError
         | IntArr xs \<Rightarrow> if length xs = n then store v else Inl ValueError
         | PyBool b \<Rightarrow> store (BoolArr (replicate n b))
         | PyInt i \<Rightarrow> store (IntArr (replicate n i))
         | PyFloat x \<Rightarrow> store (FloatArr (replicate n x))
         | PyNone \<Rightarrow> store (PyList (replicate n PyNone))
         | _ \<Rightarrow> Inl ValueError)"

text \<open>Dictionaries keep their keys in insertion order.\<close>

definition dict_get :: "pyval \<Rightarrow> string \<Rightarrow> pyval \<Rightarrow> error + pyval" where
  "dict_get d key dflt =
     (case d of
        PyDict kvs \<Rightarrow> Inr (case map_of kvs key of None \<Rightarrow> dflt | Some v \<Rightarrow> v)
      | _ \<Rightarrow> Inl AttributeError)"

definition dict_set :: "(string \<times> pyval) list \<Rightarrow> string \<Rightarrow> pyval \<Rightarrow> (string \<times> pyval) list" where
  "dict_set kvs key v =
     (if key \<in> fst ` set kvs
      then map (\<lambda>(k', v'). if k' = key then (k', v) else (k', v')) kvs
      else kvs @ [(key, v)])"

subsection \<open>Library functions and absent modules\<close>

text \<open>
  \<open>'g\<close> is the state of numpy's process-wide random generator.
  \<^item> \<open>np_random_seed v g\<close> is \<^verbatim>\<open>np.random.seed(v)\<close> in state \<open>g\<close>;
  \<^item> \<open>np_random_randint g low high n m\<close> is \<^verbatim>\<open>np.random.randint(low, high, size=(n, m))\<close>;
  \<^item> \<open>subsample_counts g E rate totals seed\<close> is \<^verbatim>\<open>utils.subsample_counts\<close>, which
    draws from the same generator;
  \<^item> \<open>get_knn_graph manifold k metric approx seed\<close> is \<^verbatim>\<open>utils.get_knn_graph\<close> with
    \<^verbatim>\<open>return_edges=False\<close>;
  \<^item> \<open>threshold_minimum xs\<close> is \<^verbatim>\<open>skimage.filters.threshold_minimum\<close>;
  \<^item> \<open>get_obs_rep adata layer\<close> is \<^verbatim>\<open>scanpy.get._get_obs_rep\<close>.
\<close>

record 'g extern =
  np_random_seed :: "pyval \<Rightarrow> 'g \<Rightarrow> error + 'g"
  np_random_randint :: "'g \<Rightarrow> int \<Rightarrow> int \<Rightarrow> int \<Rightarrow> int \<Rightarrow> error + (int list list \<times> 'g)"
  subsample_counts ::
    "'g \<Rightarrow> int list list \<Rightarrow> npfloat \<Rightarrow> int list \<Rightarrow> pyval \<Rightarrow> error + ((int list list \<times> int list) \<times> 'g)"
  get_knn_graph :: "npfloat list list \<Rightarrow> int \<Rightarrow> string \<Rightarrow> bool \<Rightarrow> pyval \<Rightarrow> error + int list list"
  threshold_minimum :: "npfloat list \<Rightarrow> error + npfloat"
  get_obs_rep :: "anndata \<Rightarrow> string option \<Rightarrow> error + int list list"


text \<open>\<^verbatim>\<open>np.random.seed\<close> with an integer sets the generator to a state that the integer
  determines.\<close>

definition seed_contract :: "'g extern \<Rightarrow> bool" where
  "seed_contract ext =
     (\<forall>n. \<exists>g'. \<forall>g. np_random_seed ext (PyInt n) g = Inr g')"


subsection \<open>The class Scrublet\<close>

text \<open>\<^verbatim>\<open>Scrublet.__init__\<close>. The row sums are squeezed, so a matrix of one row gets a
  zero-dimensional array of totals.\<close>

definition squeeze :: "int list \<Rightarrow> pyval" where
  "squeeze xs = (case xs of [x] \<Rightarrow> IntArr0 x | _ \<Rightarrow> IntArr xs)"

definition Scrublet_init ::
  "int list list \<Rightarrow> pyval option \<Rightarrow> npfloat \<Rightarrow> int option \<Rightarrow> npfloat \<Rightarrow> npfloat \<Rightarrow> pyval \<Rightarrow> obj" where
  "Scrublet_init counts_matrix total_counts sim_doublet_ratio n_neighbors
       expected_doublet_rate stdev_doublet_rate random_state =
     [''_E_obs'' \<mapsto> IntMat counts_matrix,
      ''_E_sim'' \<mapsto> PyNone,
      ''_E_obs_norm'' \<mapsto> PyNone,
      ''_E_sim_norm'' \<mapsto> PyNone,
      ''_total_counts_obs'' \<mapsto>
         (case total_counts of
            None \<Rightarrow> squeeze (map sum_list counts_matrix)
          | Some t \<Rightarrow> t),
      ''_gene_filter'' \<mapsto> IntArr (map int [0..<shape1 counts_matrix]),
      ''_embeddings'' \<mapsto> PyDict [],
      ''sim_doublet_ratio'' \<mapsto> PyFloat sim_doublet_ratio,
      ''n_neighbors'' \<mapsto>
         PyInt (case n_neighbors of
                  None \<Rightarrow> round_half_even (0.5 * sqrt (real (shape0 counts_matrix)))
                | Some k \<Rightarrow> k),
      ''expected_doublet_rate'' \<mapsto> PyFloat expected_doublet_rate,
      ''stdev_doublet_rate'' \<mapsto> PyFloat stdev_doublet_rate,
      ''random_state'' \<mapsto> random_state]"

text \<open>
  \<^verbatim>\<open>Scrublet.simulate_doublets\<close>. The argument is the pair of the generator state and
  the object; the result is the pair after the call, or the exception raised.
\<close>

definition simulate_doublets ::
  "'g extern \<Rightarrow> 'g \<times> obj \<Rightarrow> npfloat option \<Rightarrow> npfloat \<Rightarrow> error + ('g \<times> obj)" where
  "simulate_doublets ext gs sim_doublet_ratio synthetic_doublet_umi_subsampling =
     (case gs of (g, self0) \<Rightarrow>
      bind_res
        (case sim_doublet_ratio of
           None \<Rightarrow> bind_res (getattr self0 ''sim_doublet_ratio'') (\<lambda>v. Inr (v, self0))
         | Some r \<Rightarrow> Inr (PyFloat r, self0(''sim_doublet_ratio'' \<mapsto> PyFloat r)))
        (\<lambda>(ratio_v, self).
      bind_res (getattr self ''_E_obs'') (\<lambda>E_v.
      bind_res (as_int_mat E_v) (\<lambda>E_obs.
      let n_obs = int (shape0 E_obs) in
      bind_res (as_float ratio_v) (\<lambda>ratio.
      bind_res (py_int (f_mul (Fin (of_int n_obs)) ratio)) (\<lambda>n_sim.
      bind_res (getattr self ''random_state'') (\<lambda>random_state.
      bind_res (np_random_seed ext random_state g) (\<lambda>g1.
      bind_res (np_random_randint ext g1 0 n_obs n_sim 2) (\<lambda>(pair_ix, g2).
      bind_res (np_column pair_ix 0) (\<lambda>ix0.
      bind_res (np_take E_obs ix0) (\<lambda>E1.
      bind_res (np_column pair_ix 1) (\<lambda>ix1.
      bind_res (np_take E_obs ix1) (\<lambda>E2.
      bind_res (getattr self ''_total_counts_obs'') (\<lambda>total_counts_obs.
      bind_res (index_int_arr total_counts_obs ix0) (\<lambda>tots1.
      bind_res (index_int_arr total_counts_obs ix1) (\<lambda>tots2.
      bind_res
        (if f_less synthetic_doublet_umi_subsampling (Fin 1)
         then subsample_counts ext g2 (mat_add E1 E2) synthetic_doublet_umi_subsampling
                (vec_add tots1 tots2) random_state
         else Inr ((mat_add E1 E2, vec_add tots1 tots2), g2))
        (\<lambda>((E_sim, total_counts_sim), g3).
      Inr (g3, self(''_E_sim'' \<mapsto> IntMat E_sim,
                    ''_total_counts_sim'' \<mapsto> IntArr total_counts_sim,
                    ''doublet_parents_'' \<mapsto> IntMat pair_ix)))))))))))))))))))"


text \<open>\<^verbatim>\<open>Scrublet.set_manifold\<close>.\<close>

definition set_manifold :: "obj \<Rightarrow> pyval \<Rightarrow> pyval \<Rightarrow> obj" where
  "set_manifold self manifold_obs manifold_sim =
     self(''manifold_obs_'' \<mapsto> manifold_obs, ''manifold_sim_'' \<mapsto> manifold_sim)"

text \<open>\<^verbatim>\<open>np.vstack\<close> of two matrices, a boolean-mask selection \<^verbatim>\<open>a[mask]\<close>, and
  \<^verbatim>\<open>np.unique\<close>.\<close>

definition np_vstack :: "'a list list \<Rightarrow> 'a list list \<Rightarrow> error + 'a list list" where
  "np_vstack a b =
     (if a \<noteq> [] \<and> b \<noteq> [] \<and> shape1 a \<noteq> shape1 b then Inl ValueError else Inr (a @ b))"

definition np_mask :: "'a list \<Rightarrow> bool list \<Rightarrow> error + 'a list" where
  "np_mask xs sel =
     (if length xs = length sel then Inr (map fst (filter snd (zip xs sel)))
      else Inl IndexError)"

definition np_unique :: "int list \<Rightarrow> int list" where
  "np_unique xs = sort (remdups xs)"

text \<open>The neighbourhood size of the pooled query,
  \<^verbatim>\<open>k_adj = int(round(k * (1 + n_sim / float(n_obs))))\<close>.\<close>

definition k_adj :: "int \<Rightarrow> int \<Rightarrow> int \<Rightarrow> error + int" where
  "k_adj k n_sim n_obs =
     py_int_round
       (f_mul (Fin (of_int k))
          (f_add (Fin 1) (f_div (Fin (of_int n_sim)) (Fin (of_int n_obs)))))"

text \<open>The score and its standard error for one pooled point with \<open>nd\<close> simulated
  neighbours, as the lines under \<^verbatim>\<open># Bayesian\<close> compute them:
  \<^verbatim>\<open>q = (nd + 1) / (N + 2)\<close>,
  \<^verbatim>\<open>Ld = q * rho / r / (1 - rho - q * (1 - rho - rho / r))\<close>,
  \<^verbatim>\<open>se_q = np.sqrt(q * (1 - q) / (N + 3))\<close> and
  \<^verbatim>\<open>se_Ld = q * rho / r / (1 - rho - q * (1 - rho - rho / r)) ** 2
        * np.sqrt((se_q / q * (1 - rho)) ** 2 + (se_rho / rho * (1 - q)) ** 2)\<close>.\<close>

definition bayes_q :: "npfloat \<Rightarrow> npfloat \<Rightarrow> npfloat" where
  "bayes_q N nd = f_div (f_add nd (Fin 1)) (f_add N (Fin 2))"

definition bayes_denom :: "npfloat \<Rightarrow> npfloat \<Rightarrow> npfloat \<Rightarrow> npfloat" where
  "bayes_denom rho r q =
     f_sub (f_sub (Fin 1) rho) (f_mul q (f_sub (f_sub (Fin 1) rho) (f_div rho r)))"

definition Ld :: "npfloat \<Rightarrow> npfloat \<Rightarrow> npfloat \<Rightarrow> npfloat \<Rightarrow> npfloat" where
  "Ld rho r N nd =
     (let q = bayes_q N nd
      in f_div (f_div (f_mul q rho) r) (bayes_denom rho r q))"

definition se_Ld :: "npfloat \<Rightarrow> npfloat \<Rightarrow> npfloat \<Rightarrow> npfloat \<Rightarrow> npfloat \<Rightarrow> npfloat" where
  "se_Ld rho se_rho r N nd =
     (let q = bayes_q N nd;
          se_q = f_sqrt (f_div (f_mul q (f_sub (Fin 1) q)) (f_add N (Fin 3)))
      in f_mul
           (f_div (f_div (f_mul q rho) r) (f_square (bayes_denom rho r q)))
           (f_sqrt
              (f_add (f_square (f_mul (f_div se_q q) (f_sub (Fin 1) rho)))
                     (f_square (f_mul (f_div se_rho rho) (f_sub (Fin 1) q))))))"

text \<open>The parents of the simulated neighbours of one observed cell (the body of the loop
  over \<^verbatim>\<open>iCell\<close>); \<open>row\<close> is the cell's row of \<^verbatim>\<open>neighbors - n_obs\<close>.\<close>

definition doublet_neighbor_parents_of :: "int list list \<Rightarrow> int list \<Rightarrow> error + pyval" where
  "doublet_neighbor_parents_of parent_cells row =
     (let this_doub_neigh = filter (\<lambda>j. - 1 < j) row
      in if 0 < length this_doub_neigh
         then bind_res (np_take parent_cells this_doub_neigh)
                (\<lambda>rows. Inr (IntArr (np_unique (concat rows))))
         else Inr (PyList []))"

text \<open>\<^verbatim>\<open>Scrublet._nearest_neighbor_classifier\<close>.\<close>

definition nearest_neighbor_classifier ::
  "'g extern \<Rightarrow> obj \<Rightarrow> int \<Rightarrow> bool \<Rightarrow> string \<Rightarrow> npfloat \<Rightarrow> npfloat \<Rightarrow> bool \<Rightarrow> error + obj" where
  "nearest_neighbor_classifier ext self k use_approx_nn distance_metric
       exp_doub_rate stdev_doub_rate get_neighbor_parents =
     bind_res (getattr self ''manifold_obs_'') (\<lambda>mo_v.
     bind_res (getattr self ''manifold_sim_'') (\<lambda>ms_v.
     bind_res (as_float_mat mo_v) (\<lambda>manifold_obs.
     bind_res (as_float_mat ms_v) (\<lambda>manifold_sim.
     bind_res (np_vstack manifold_obs manifold_sim) (\<lambda>manifold.
     let doub_labels = replicate (shape0 manifold_obs) (0::int) @
                       replicate (shape0 manifold_sim) (1::int);
         n_obs = int (length (filter (\<lambda>l. l = 0) doub_labels));
         n_sim = int (length (filter (\<lambda>l. l = 1) doub_labels))
     in
     bind_res (k_adj k n_sim n_obs) (\<lambda>k_adj.
     bind_res (getattr self ''random_state'') (\<lambda>random_state.
     bind_res (get_knn_graph ext manifold k_adj distance_metric use_approx_nn random_state)
       (\<lambda>neighbors.
     bind_res (map_res (np_take doub_labels) neighbors) (\<lambda>neighbor_labels.
     let n_sim_neigh = map (\<lambda>row. int (length (filter (\<lambda>l. l = 1) row))) neighbor_labels;
         rho = exp_doub_rate;
         r = f_div (Fin (of_int n_sim)) (Fin (of_int n_obs));
         nd = map (\<lambda>c. Fin (of_int c)) n_sim_neigh;
         N = Fin (of_int k_adj);
         Ld_all = map (Ld rho r N) nd;
         se_rho = stdev_doub_rate;
         se_Ld_all = map (se_Ld rho se_rho r N) nd
     in
     bind_res (np_mask Ld_all (map (\<lambda>l. l = 0) doub_labels)) (\<lambda>doublet_scores_obs.
     bind_res (np_mask Ld_all (map (\<lambda>l. l = 1) doub_labels)) (\<lambda>doublet_scores_sim.
     bind_res (np_mask se_Ld_all (map (\<lambda>l. l = 0) doub_labels)) (\<lambda>doublet_errors_obs.
     bind_res (np_mask se_Ld_all (map (\<lambda>l. l = 1) doub_labels)) (\<lambda>doublet_errors_sim.
     let self1 = self(''doublet_scores_obs_'' \<mapsto> FloatArr doublet_scores_obs,
                      ''doublet_scores_sim_'' \<mapsto> FloatArr doublet_scores_sim,
                      ''doublet_errors_obs_'' \<mapsto> FloatArr doublet_errors_obs,
                      ''doublet_errors_sim_'' \<mapsto> FloatArr doublet_errors_sim)
     in
     if get_neighbor_parents
     then bind_res (getattr self1 ''doublet_parents_'') (\<lambda>pc_v.
          bind_res (as_int_mat pc_v) (\<lambda>parent_cells.
          let shifted = map (map (\<lambda>j. j - n_obs)) neighbors in
          bind_res (map_res (\<lambda>iCell.
                      bind_res (np_index shifted (int iCell))
                        (doublet_neighbor_parents_of parent_cells))
                    [0..<nat n_obs]) (\<lambda>neighbor_parents.
          Inr (self1(''doublet_neighbor_parents_'' \<mapsto> PyList neighbor_parents)))))
     else Inr self1)))))))))))))"

text \<open>\<^verbatim>\<open>Scrublet.calculate_doublet_scores\<close>.\<close>

definition calculate_doublet_scores ::
  "'g extern \<Rightarrow> obj \<Rightarrow> bool \<Rightarrow> string \<Rightarrow> bool \<Rightarrow> error + obj" where
  "calculate_doublet_scores ext self use_approx_neighbors distance_metric
       get_doublet_neighbor_parents =
     bind_res (getattr self ''n_neighbors'') (\<lambda>k_v.
     bind_res (getattr self ''expected_doublet_rate'') (\<lambda>rho_v.
     bind_res (getattr self ''stdev_doublet_rate'') (\<lambda>sd_v.
     bind_res (as_int k_v) (\<lambda>k.
     bind_res (as_float rho_v) (\<lambda>exp_doub_rate.
     bind_res (as_float sd_v) (\<lambda>stdev_doub_rate.
     nearest_neighbor_classifier ext self k use_approx_neighbors distance_metric
       exp_doub_rate stdev_doub_rate get_doublet_neighbor_parents))))))"

text \<open>Element-wise arithmetic of two arrays with numpy's broadcasting of an array of
  length one.\<close>

definition np_broadcast2 ::
  "(npfloat \<Rightarrow> npfloat \<Rightarrow> npfloat) \<Rightarrow> npfloat list \<Rightarrow> npfloat list \<Rightarrow> error + npfloat list" where
  "np_broadcast2 f xs ys =
     (if length xs = length ys then Inr (map2 f xs ys)
      else if length xs = 1 then Inr (map (f (hd xs)) ys)
      else if length ys = 1 then Inr (map (\<lambda>x. f x (hd ys)) xs)
      else Inl ValueError)"

text \<open>\<^verbatim>\<open>(a > threshold).sum() / float(len(a))\<close>.\<close>

definition fraction_above :: "npfloat \<Rightarrow> npfloat list \<Rightarrow> npfloat" where
  "fraction_above threshold xs =
     f_div (Fin (real (length (filter (\<lambda>x. f_less threshold x) xs))))
           (Fin (real (length xs)))"

text \<open>
  The body of the \<^verbatim>\<open>try\<close> block of \<^verbatim>\<open>call_doublets\<close>,
  \<^verbatim>\<open>threshold_minimum(self.doublet_scores_sim_)\<close>: the read of the attribute is
  inside the block, so \<^verbatim>\<open>except Exception\<close> covers it too.
\<close>

definition automatic_threshold :: "'g extern \<Rightarrow> obj \<Rightarrow> error + npfloat" where
  "automatic_threshold ext self =
     bind_res (getattr self ''doublet_scores_sim_'') (\<lambda>v.
     bind_res (as_float_arr v) (threshold_minimum ext))"

text \<open>
  \<^verbatim>\<open>Scrublet.call_doublets\<close>. The printed messages are not modelled, so
  \<^verbatim>\<open>verbose\<close> is no argument.
\<close>

definition call_doublets :: "'g extern \<Rightarrow> obj \<Rightarrow> npfloat option \<Rightarrow> error + obj" where
  "call_doublets ext self threshold =
     (case (case threshold of
              None \<Rightarrow>
                (case automatic_threshold ext self of
                   Inl e \<Rightarrow> None
                 | Inr t \<Rightarrow> Some t)
            | Some t \<Rightarrow> Some t) of
        None \<Rightarrow> Inr (self(''predicted_doublets_'' \<mapsto> PyNone))
      | Some threshold \<Rightarrow>
          bind_res (getattr self ''doublet_scores_obs_'') (\<lambda>lo_v.
          bind_res (getattr self ''doublet_scores_sim_'') (\<lambda>ls_v.
          bind_res (getattr self ''doublet_errors_obs_'') (\<lambda>se_v.
          bind_res (as_float_arr lo_v) (\<lambda>Ld_obs.
          bind_res (as_float_arr ls_v) (\<lambda>Ld_sim.
          bind_res (as_float_arr se_v) (\<lambda>se_obs.
          bind_res (np_broadcast2 f_div (map (\<lambda>x. f_sub x threshold) Ld_obs) se_obs) (\<lambda>Z.
          let detected_doublet_rate = fraction_above threshold Ld_obs;
              detectable_doublet_fraction = fraction_above threshold Ld_sim
          in Inr (self(''predicted_doublets_'' \<mapsto> BoolArr (map (\<lambda>x. f_less threshold x) Ld_obs),
                       ''z_scores_'' \<mapsto> FloatArr Z,
                       ''threshold_'' \<mapsto> PyFloat threshold,
                       ''detected_doublet_rate_'' \<mapsto> PyFloat detected_doublet_rate,
                       ''detectable_doublet_fraction_'' \<mapsto> PyFloat detectable_doublet_fraction,
                       ''overall_doublet_rate_'' \<mapsto>
                          PyFloat (f_div detected_doublet_rate detectable_doublet_fraction)))))))))))"

subsection \<open>The wrappers of \<^verbatim>\<open>__init__.py\<close>\<close>

text \<open>
  \<^verbatim>\<open>_scrublet_call_doublets\<close> from the comment \<^verbatim>\<open># Score the doublets\<close> to its
  \<^verbatim>\<open>return\<close>. The lines before it build the \<^verbatim>\<open>Scrublet\<close> object and embed the two
  populations through the module \<^verbatim>\<open>pipeline\<close>, which is not among the sources; \<open>scrub\<close>
  is the object they leave, and \<open>n_neighbors\<close> is the value after its default was
  filled in.
\<close>

text \<open>The block that exposes the predictions, from \<^verbatim>\<open>if hasattr(scrub, "threshold_")\<close>
  to the end of its \<^verbatim>\<open>else\<close> branch; \<open>d\<close> is the dictionary built for
  \<^verbatim>\<open>adata_obs.uns["scrublet"]\<close>.\<close>

definition expose_predictions ::
  "obj \<Rightarrow> anndata \<Rightarrow> (string \<times> pyval) list \<Rightarrow> error + ((string \<times> pyval) list \<times> anndata)" where
  "expose_predictions scrub adata_obs d =
     (if hasattr scrub ''threshold_''
      then bind_res (getattr scrub ''threshold_'') (\<lambda>th.
           bind_res (getattr scrub ''predicted_doublets_'') (\<lambda>pred.
           bind_res (obs_assign adata_obs ''predicted_doublet'' pred) (\<lambda>adata2.
           Inr (dict_set d ''threshold'' th, adata2))))
      else bind_res (obs_assign adata_obs ''predicted_doublet'' (PyBool False)) (\<lambda>adata2.
           Inr (d, adata2)))"

definition scrublet_call_doublets_results ::
  "'g extern \<Rightarrow> obj \<Rightarrow> anndata \<Rightarrow> anndata \<Rightarrow> int \<Rightarrow> npfloat \<Rightarrow> bool \<Rightarrow> string \<Rightarrow> bool \<Rightarrow>
   npfloat option \<Rightarrow> pyval \<Rightarrow> error + anndata" where
  "scrublet_call_doublets_results ext scrub0 adata_obs adata_sim n_neighbors
       expected_doublet_rate use_approx_neighbors knn_dist_metric
       get_doublet_neighbor_parents threshold random_state =
     bind_res (calculate_doublet_scores ext scrub0 use_approx_neighbors knn_dist_metric
                 get_doublet_neighbor_parents) (\<lambda>scrub1.
     bind_res (call_doublets ext scrub1 threshold) (\<lambda>scrub.
     bind_res (getattr scrub ''doublet_scores_obs_'') (\<lambda>scores_obs.
     bind_res (obs_assign adata_obs ''doublet_score'' scores_obs) (\<lambda>adata1.
     bind_res (getattr scrub ''doublet_scores_sim_'') (\<lambda>scores_sim.
     bind_res (case ad_obsm adata_sim ''doublet_parents'' of
                 None \<Rightarrow> Inl KeyError | Some v \<Rightarrow> Inr v) (\<lambda>parents.
     bind_res (dict_get (case ad_uns adata_sim ''scrublet'' of
                           None \<Rightarrow> PyDict [] | Some d \<Rightarrow> d) ''parameters'' (PyDict [])) (\<lambda>params.
     bind_res (dict_get params ''sim_doublet_ratio'' PyNone) (\<lambda>ratio.
     let d = [(''doublet_scores_sim'', scores_sim),
              (''doublet_parents'', parents),
              (''parameters'',
                 PyDict [(''expected_doublet_rate'', PyFloat expected_doublet_rate),
                         (''sim_doublet_ratio'', ratio),
                         (''n_neighbors'', PyInt n_neighbors),
                         (''random_state'', random_state)])]
     in
     bind_res (expose_predictions scrub adata1 d) (\<lambda>(d1, adata2).
     bind_res
       (if get_doublet_neighbor_parents
        then bind_res (getattr scrub ''doublet_neighbor_parents_'') (\<lambda>np.
             Inr (dict_set d1 ''doublet_neighbor_parents'' np))
        else Inr d1)
       (\<lambda>d2.
     Inr (adata2\<lparr>ad_uns := (ad_uns adata2)(''scrublet'' \<mapsto> PyDict d2)\<rparr>)))))))))))"

text \<open>\<^verbatim>\<open>scrublet_simulate_doublets\<close>. The constructor is called with its defaults.\<close>

definition scrublet_simulate_doublets ::
  "'g extern \<Rightarrow> 'g \<times> anndata \<Rightarrow> string option \<Rightarrow> npfloat \<Rightarrow> npfloat \<Rightarrow> pyval \<Rightarrow>
   error + ('g \<times> anndata)" where
  "scrublet_simulate_doublets ext ga layer sim_doublet_ratio
       synthetic_doublet_umi_subsampling random_seed =
     (case ga of (g, adata) \<Rightarrow>
      bind_res (get_obs_rep ext adata layer) (\<lambda>X.
      let scrub0 = Scrublet_init X None (Fin 2) None (Fin (1 / 10)) (Fin (2 / 100)) random_seed in
      bind_res (simulate_doublets ext (g, scrub0) (Some sim_doublet_ratio)
                  synthetic_doublet_umi_subsampling) (\<lambda>(g', scrub).
      bind_res (getattr scrub ''_counts_sim'') (\<lambda>counts_sim.
      let adata_sim0 = AnnData counts_sim in
      bind_res (getattr scrub ''_total_counts_sim'') (\<lambda>total_counts_sim.
      bind_res (obs_assign adata_sim0 ''n_counts'' total_counts_sim) (\<lambda>adata_sim1.
      bind_res (getattr scrub ''doublet_parents_'') (\<lambda>doublet_parents.
      Inr (g', adata_sim1\<lparr>
             ad_obsm := (ad_obsm adata_sim1)(''doublet_parents'' \<mapsto> doublet_parents),
             ad_uns := (ad_uns adata_sim1)(''scrublet'' \<mapsto>
                PyDict [(''parameters'',
                   PyDict [(''sim_doublet_ratio'', PyFloat sim_doublet_ratio)])])\<rparr>))))))))"

text \<open>What a call of \<open>simulate_doublets\<close> leaves for its callers: the generator state
  and the three attributes it assigns.\<close>

definition simulation_outputs ::
  "error + ('g \<times> obj) \<Rightarrow> error + ('g \<times> pyval option \<times> pyval option \<times> pyval option)" where
  "simulation_outputs res =
     (case res of
        Inl e \<Rightarrow> Inl e
      | Inr (g, s) \<Rightarrow> Inr (g, s ''doublet_parents_'', s ''_E_sim'', s ''_total_counts_sim''))"

definition attr_after :: "error + ('g \<times> obj) \<Rightarrow> string \<Rightarrow> pyval option" where
  "attr_after res a = (case res of Inl e \<Rightarrow> None | Inr (g, s) \<Rightarrow> s a)"

definition generator_after :: "error + ('g \<times> obj) \<Rightarrow> 'g option" where
  "generator_after res = (case res of Inl e \<Rightarrow> None | Inr (g, s) \<Rightarrow> Some g)"

text \<open>The specification's formulas for the score and its standard error, over the
  reals: \<open>q = (nd + 1) / (N + 2)\<close>,
  \<open>L_d = q rho / r / (1 - rho - q (1 - rho - rho / r))\<close>,
  \<open>se_q = sqrt (q (1 - q) / (N + 3))\<close> and
  \<open>se_Ld = q rho / r / (1 - rho - q (1 - rho - rho / r))^2
     sqrt ((se_q / q (1 - rho))^2 + (sigma / rho (1 - q))^2)\<close>.\<close>

definition spec_q :: "real \<Rightarrow> real \<Rightarrow> real" where
  "spec_q N nd = (nd + 1) / (N + 2)"

definition spec_Ld :: "real \<Rightarrow> real \<Rightarrow> real \<Rightarrow> real \<Rightarrow> real" where
  "spec_Ld rho r N nd =
     (let q = spec_q N nd
      in q * rho / r / (1 - rho - q * (1 - rho - rho / r)))"

definition spec_se_q :: "real \<Rightarrow> real \<Rightarrow> real" where
  "spec_se_q N nd = (let q = spec_q N nd in sqrt (q * (1 - q) / (N + 3)))"

definition spec_se_Ld :: "real \<Rightarrow> real \<Rightarrow> real \<Rightarrow> real \<Rightarrow> real \<Rightarrow> real" where
  "spec_se_Ld rho sigma r N nd =
     (let q = spec_q N nd; se_q = spec_se_q N nd
      in q * rho / r / (1 - rho - q * (1 - rho - rho / r))\<^sup>2
         * sqrt ((se_q / q * (1 - rho))\<^sup>2 + (sigma / rho * (1 - q))\<^sup>2))"

text \<open>The number of entries of a row of the neighbour graph that lie in the simulated
  range of the pooled indices.\<close>

definition n_sim_neighbors :: "nat \<Rightarrow> int list \<Rightarrow> nat" where
  "n_sim_neighbors n_obs row = length (filter (\<lambda>j. int n_obs \<le> j) row)"

subsection \<open>A concrete instance\<close>

text \<open>A small deterministic instance of the library functions, on which the model can be
  run: the generator state is a counter, every point's neighbours are the next points in
  cyclic order, and the threshold search fails when all scores coincide.\<close>

definition example_ext :: "nat extern" where
  "example_ext =
     \<lparr> np_random_seed = (\<lambda>v g. case v of PyInt n \<Rightarrow> Inr (nat \<bar>n\<bar>) | PyNone \<Rightarrow> Inr g | _ \<Rightarrow> Inl TypeError),
       np_random_randint = (\<lambda>g low high n m.
          if low < high \<and> 0 \<le> n \<and> 0 \<le> m
          then Inr (map (\<lambda>i. map (\<lambda>j. low + int (g + i + j) mod (high - low)) [0..<nat m]) [0..<nat n],
                    Suc g)
          else Inl ValueError),
       subsample_counts = (\<lambda>g E rate tots seed. Inr ((E, map sum_list E), Suc g)),
       get_knn_graph = (\<lambda>manifold k metric approx seed.
          if k < 0 then Inl ValueError
          else Inr (map (\<lambda>i. map (\<lambda>j. (int i + 1 + int j) mod int (length manifold)) [0..<nat k])
                     [0..<length manifold])),
       threshold_minimum = (\<lambda>xs. case xs of [] \<Rightarrow> Inl RuntimeError
                                   | x # _ \<Rightarrow> if list_all (\<lambda>y. y = x) xs then Inl RuntimeError else Inr x),
       get_obs_rep = (\<lambda>adata layer.
          case (case layer of None \<Rightarrow> Some (ad_X adata) | Some l \<Rightarrow> ad_layers adata l) of
            Some (IntMat m) \<Rightarrow> Inr m
          | Some _ \<Rightarrow> Inl TypeError
          | None \<Rightarrow> Inl KeyError) \<rparr>"

definition example_scrub :: obj where
  "example_scrub =
     Scrublet_init [[1, 0, 2], [0, 3, 1]] None (Fin 2) (Some 1) (Fin (1 / 10)) (Fin (2 / 100)) (PyInt 0)"

text \<open>An object with embedded populations, two observed and four simulated points, and
  the neighbour graph that the instance returns for it with three neighbours.\<close>

definition example_embedded :: "int \<Rightarrow> obj" where
  "example_embedded k =
     set_manifold
       (Scrublet_init [[1, 0, 2], [0, 3, 1]] None (Fin 2) (Some k) (Fin (1 / 10)) (Fin (2 / 100)) (PyInt 0))
       (FloatMat [[Fin 0, Fin 0], [Fin 1, Fin 0]])
       (FloatMat [[Fin 0, Fin 1], [Fin 1, Fin 1], [Fin 2, Fin 1], [Fin 2, Fin 2]])"

definition example_neighbors :: "int list list" where
  "example_neighbors = [[1, 2, 3], [2, 3, 4], [3, 4, 5], [4, 5, 0], [5, 0, 1], [0, 1, 2]]"

text \<open>An object that holds scores: two observed cells, and the given simulated scores.\<close>

definition example_scored :: "npfloat list \<Rightarrow> obj" where
  "example_scored sim_scores =
     (example_embedded 1)
       (''doublet_scores_obs_'' \<mapsto> FloatArr [Fin (1 / 2), Fin (1 / 10)],
        ''doublet_scores_sim_'' \<mapsto> FloatArr sim_scores,
        ''doublet_errors_obs_'' \<mapsto> FloatArr [Fin (1 / 100), Fin (1 / 100)],
        ''doublet_errors_sim_'' \<mapsto> FloatArr (map (\<lambda>x. Fin (1 / 100)) sim_scores))"

section \<open>Properties\<close>

subsection \<open>Auxiliary facts\<close>


lemma bind_res_Inl [simp]: "bind_res (Inl e) f = Inl e"
  by (simp add: bind_res_def)

lemma bind_res_Inr [simp]: "bind_res (Inr v) f = f v"
  by (simp add: bind_res_def)

lemma map_res_Inr:
  "(\<And>x. x \<in> set xs \<Longrightarrow> f x = Inr (h x)) \<Longrightarrow> map_res f xs = Inr (map h xs)"
  by (induction xs) simp_all

lemma np_index_in_range:
  "0 \<le> i \<Longrightarrow> i < int (length xs) \<Longrightarrow> np_index xs i = Inr (xs ! nat i)"
  by (simp add: np_index_def)

lemma np_take_in_range:
  "\<forall>i \<in> set ix. 0 \<le> i \<and> i < int (length xs) \<Longrightarrow>
   np_take xs ix = Inr (map (\<lambda>i. xs ! nat i) ix)"
  unfolding np_take_def by (rule map_res_Inr) (simp add: np_index_in_range)



lemma getattr_Some [simp]: "s a = Some v \<Longrightarrow> getattr s a = Inr v"
  by (simp add: getattr_def)



lemma bind_res_InrE:
  assumes "bind_res m f = Inr r"
  obtains v where "m = Inr v" and "f v = Inr r"
  using assms by (cases m) (simp_all add: bind_res_def)

lemma simulate_doublets_frame_aux:
  assumes "simulate_doublets ext (g, self) arg subs = Inr (g', self')"
  shows "(\<forall>a. a \<notin> {''_E_sim'', ''_total_counts_sim'', ''doublet_parents_'', ''sim_doublet_ratio''}
              \<longrightarrow> self' a = self a) \<and>
         self' ''sim_doublet_ratio'' =
           (case arg of None \<Rightarrow> self ''sim_doublet_ratio'' | Some r \<Rightarrow> Some (PyFloat r))"
  using assms unfolding simulate_doublets_def Let_def
  apply (simp only: prod.case)
  apply (elim bind_res_InrE)
  apply (auto simp: getattr_def split: option.splits prod.splits if_splits elim!: bind_res_InrE)
  done


lemma bind_res_outputs_cong:
  assumes "m = m'"
    and "\<And>v. m' = Inr v \<Longrightarrow> simulation_outputs (f v) = simulation_outputs (f' v)"
  shows "simulation_outputs (bind_res m f) = simulation_outputs (bind_res m' f')"
  using assms by (cases m') (simp_all add: bind_res_def simulation_outputs_def)

lemma bind_res_assoc: "bind_res (bind_res m f) k = bind_res m (\<lambda>v. bind_res (f v) k)"
  by (cases m) (simp_all add: bind_res_def)

lemma simulate_doublets_det_aux:
  assumes sc: "seed_contract ext"
    and rs: "self1 ''random_state'' = Some (PyInt seed)"
    and eq: "self1 ''_E_obs'' = self2 ''_E_obs''"
        "self1 ''_total_counts_obs'' = self2 ''_total_counts_obs''"
        "self1 ''random_state'' = self2 ''random_state''"
        "self1 ''sim_doublet_ratio'' = self2 ''sim_doublet_ratio''"
  shows "simulation_outputs (simulate_doublets ext (g1, self1) arg subs) =
         simulation_outputs (simulate_doublets ext (g2, self2) arg subs)"
proof -
  from sc obtain g' where s: "\<And>g. np_random_seed ext (PyInt seed) g = Inr g'"
    unfolding seed_contract_def by blast
  have rb: "self2 ''random_state'' = Some (PyInt seed)"
    using eq(3) rs by metis
  have ga: "getattr self1 ''_E_obs'' = getattr self2 ''_E_obs''"
    "getattr self1 ''_total_counts_obs'' = getattr self2 ''_total_counts_obs''"
    "getattr self1 ''sim_doublet_ratio'' = getattr self2 ''sim_doublet_ratio''"
    "getattr self1 ''random_state'' = Inr (PyInt seed)"
    "getattr self2 ''random_state'' = Inr (PyInt seed)"
    by (simp_all add: getattr_def eq rb)
  have upd: "getattr (s(''sim_doublet_ratio'' \<mapsto> v)) ''_E_obs'' = getattr s ''_E_obs''"
    "getattr (s(''sim_doublet_ratio'' \<mapsto> v)) ''_total_counts_obs'' = getattr s ''_total_counts_obs''"
    "getattr (s(''sim_doublet_ratio'' \<mapsto> v)) ''random_state'' = getattr s ''random_state''"
    for s :: obj and v
    by (simp_all add: getattr_def)
  show ?thesis
  proof (cases arg)
    case None
    show ?thesis
      unfolding simulate_doublets_def None option.case prod.case bind_res_assoc bind_res_Inr
        ga upd Let_def s
      apply (intro bind_res_outputs_cong refl)
      apply (simp only: split_paired_all prod.case)
      apply (intro bind_res_outputs_cong refl)
      apply (simp only: split_paired_all prod.case)
      apply (simp add: simulation_outputs_def)
      done
  next
    case (Some r)
    show ?thesis
      unfolding simulate_doublets_def Some option.case prod.case bind_res_assoc bind_res_Inr
        upd ga Let_def s
      apply (intro bind_res_outputs_cong refl)
      apply (simp only: split_paired_all prod.case)
      apply (intro bind_res_outputs_cong refl)
      apply (simp only: split_paired_all prod.case)
      apply (simp add: simulation_outputs_def)
      done
  qed
qed




lemma example_seed_contract: "seed_contract example_ext"
  unfolding seed_contract_def example_ext_def by simp


lemma example_scrub_attrs:
  "example_scrub ''_E_obs'' = Some (IntMat [[1, 0, 2], [0, 3, 1]])"
  "example_scrub ''_total_counts_obs'' = Some (IntArr [3, 4])"
  "example_scrub ''random_state'' = Some (PyInt 0)"
  "example_scrub ''sim_doublet_ratio'' = Some (PyFloat (Fin 2))"
  by (simp_all add: example_scrub_def Scrublet_init_def squeeze_def)



lemma example_run_3:
  "simulate_doublets example_ext (5, example_scrub) (Some (Fin 3)) (Fin 1) =
     Inr (Suc 0, example_scrub(''sim_doublet_ratio'' \<mapsto> PyFloat (Fin 3),
            ''_E_sim'' \<mapsto> IntMat [[1, 3, 3], [1, 3, 3], [1, 3, 3], [1, 3, 3], [1, 3, 3], [1, 3, 3]],
            ''_total_counts_sim'' \<mapsto> IntArr [7, 7, 7, 7, 7, 7],
            ''doublet_parents_'' \<mapsto> IntMat [[0, 1], [1, 0], [0, 1], [1, 0], [0, 1], [1, 0]]))"
  by (simp add: simulate_doublets_def example_scrub_def Scrublet_init_def example_ext_def
      getattr_def squeeze_def shape0_def np_column_def np_take_def np_index_def mat_add_def
      vec_add_def upt_conv_Cons)

subsection \<open>Doublet simulation\<close>





text \<open>
  Claim C8, as stated, asks that nothing but the simulation outputs is modified. The call
  below is made with a ratio that differs from the stored one: afterwards the attribute
  \<open>sim_doublet_ratio\<close> holds the argument, and the process-wide generator has been
  reseeded and advanced.
\<close>

theorem simulate_doublets_frame_counterexample:
  "example_scrub ''sim_doublet_ratio'' = Some (PyFloat (Fin 2)) \<and>
   attr_after (simulate_doublets example_ext (5, example_scrub) (Some (Fin 3)) (Fin 1))
     ''sim_doublet_ratio'' = Some (PyFloat (Fin 3)) \<and>
   generator_after (simulate_doublets example_ext (5, example_scrub) (Some (Fin 3)) (Fin 1))
     = Some 1"
  by (simp add: example_run_3 attr_after_def generator_after_def example_scrub_attrs)

text \<open>
  Claim C8, amended. Two calls with the same arguments on objects that agree on
  \<open>_E_obs\<close>, \<open>_total_counts_obs\<close>, \<open>random_state\<close> (an integer seed) and
  \<open>sim_doublet_ratio\<close>, started in any two generator states, raise the same exception or
  leave the same parent pairs, synthetic matrix, synthetic totals and generator state.
  A call that returns changes no attribute other than \<open>_E_sim\<close>, \<open>_total_counts_sim\<close>,
  \<open>doublet_parents_\<close> and \<open>sim_doublet_ratio\<close>, and \<open>sim_doublet_ratio\<close> holds the
  ratio argument when one was given.
\<close>

theorem simulate_doublets_deterministic:
  assumes "seed_contract ext"
    and "self1 ''random_state'' = Some (PyInt seed)"
    and "self1 ''_E_obs'' = self2 ''_E_obs''"
    and "self1 ''_total_counts_obs'' = self2 ''_total_counts_obs''"
    and "self1 ''random_state'' = self2 ''random_state''"
    and "self1 ''sim_doublet_ratio'' = self2 ''sim_doublet_ratio''"
  shows "simulation_outputs (simulate_doublets ext (g1, self1) arg subs) =
           simulation_outputs (simulate_doublets ext (g2, self2) arg subs) \<and>
         (\<forall>g' self'. simulate_doublets ext (g1, self1) arg subs = Inr (g', self') \<longrightarrow>
            (\<forall>a. a \<notin> {''_E_sim'', ''_total_counts_sim'', ''doublet_parents_'', ''sim_doublet_ratio''}
                 \<longrightarrow> self' a = self1 a) \<and>
            self' ''sim_doublet_ratio'' =
              (case arg of None \<Rightarrow> self1 ''sim_doublet_ratio'' | Some r \<Rightarrow> Some (PyFloat r)))"
proof (intro conjI allI impI)
  show "simulation_outputs (simulate_doublets ext (g1, self1) arg subs) =
        simulation_outputs (simulate_doublets ext (g2, self2) arg subs)"
    by (rule simulate_doublets_det_aux [OF assms])
next
  fix g' self' a
  assume run: "simulate_doublets ext (g1, self1) arg subs = Inr (g', self')"
  assume "a \<notin> {''_E_sim'', ''_total_counts_sim'', ''doublet_parents_'', ''sim_doublet_ratio''}"
  with simulate_doublets_frame_aux [OF run] show "self' a = self1 a" by blast
next
  fix g' self'
  assume run: "simulate_doublets ext (g1, self1) arg subs = Inr (g', self')"
  from simulate_doublets_frame_aux [OF run]
  show "self' ''sim_doublet_ratio'' =
          (case arg of None \<Rightarrow> self1 ''sim_doublet_ratio'' | Some r \<Rightarrow> Some (PyFloat r))"
    by blast
qed

theorem simulate_doublets_deterministic_witness:
  "seed_contract example_ext \<and>
   example_scrub ''random_state'' = Some (PyInt 0) \<and>
   example_scrub ''_E_obs'' = (example_scrub(''n_neighbors'' \<mapsto> PyInt 7)) ''_E_obs'' \<and>
   example_scrub ''_total_counts_obs'' = (example_scrub(''n_neighbors'' \<mapsto> PyInt 7)) ''_total_counts_obs'' \<and>
   example_scrub ''random_state'' = (example_scrub(''n_neighbors'' \<mapsto> PyInt 7)) ''random_state'' \<and>
   example_scrub ''sim_doublet_ratio'' = (example_scrub(''n_neighbors'' \<mapsto> PyInt 7)) ''sim_doublet_ratio'' \<and>
   simulation_outputs (simulate_doublets example_ext (5, example_scrub) (Some (Fin 3)) (Fin 1)) =
     simulation_outputs
       (simulate_doublets example_ext (9, example_scrub(''n_neighbors'' \<mapsto> PyInt 7)) (Some (Fin 3)) (Fin 1)) \<and>
   simulate_doublets example_ext (5, example_scrub) (Some (Fin 3)) (Fin 1) =
     Inr (Suc 0, example_scrub(''sim_doublet_ratio'' \<mapsto> PyFloat (Fin 3),
            ''_E_sim'' \<mapsto> IntMat [[1, 3, 3], [1, 3, 3], [1, 3, 3], [1, 3, 3], [1, 3, 3], [1, 3, 3]],
            ''_total_counts_sim'' \<mapsto> IntArr [7, 7, 7, 7, 7, 7],
            ''doublet_parents_'' \<mapsto> IntMat [[0, 1], [1, 0], [0, 1], [1, 0], [0, 1], [1, 0]])) \<and>
   ''n_neighbors'' \<notin> {''_E_sim'', ''_total_counts_sim'', ''doublet_parents_'', ''sim_doublet_ratio''} \<and>
   attr_after (simulate_doublets example_ext (5, example_scrub) (Some (Fin 3)) (Fin 1)) ''n_neighbors''
     = example_scrub ''n_neighbors''"
proof -
  have e: "example_scrub ''_E_obs'' = (example_scrub(''n_neighbors'' \<mapsto> PyInt 7)) ''_E_obs''"
    "example_scrub ''_total_counts_obs'' = (example_scrub(''n_neighbors'' \<mapsto> PyInt 7)) ''_total_counts_obs''"
    "example_scrub ''random_state'' = (example_scrub(''n_neighbors'' \<mapsto> PyInt 7)) ''random_state''"
    "example_scrub ''sim_doublet_ratio'' = (example_scrub(''n_neighbors'' \<mapsto> PyInt 7)) ''sim_doublet_ratio''"
    by simp_all
  note th = simulate_doublets_deterministic [OF example_seed_contract example_scrub_attrs(3) e,
      of 5 "Some (Fin 3)" "Fin 1" 9]
  from th have det: "simulation_outputs (simulate_doublets example_ext (5, example_scrub) (Some (Fin 3)) (Fin 1)) =
     simulation_outputs
       (simulate_doublets example_ext (9, example_scrub(''n_neighbors'' \<mapsto> PyInt 7)) (Some (Fin 3)) (Fin 1))"
    by (rule conjunct1)
  have nin: "''n_neighbors'' \<notin> {''_E_sim'', ''_total_counts_sim'', ''doublet_parents_'', ''sim_doublet_ratio''}"
    by simp
  from th [THEN conjunct2, rule_format, OF example_run_3, THEN conjunct1, rule_format, OF nin]
  have fr: "attr_after (simulate_doublets example_ext (5, example_scrub) (Some (Fin 3)) (Fin 1)) ''n_neighbors''
     = example_scrub ''n_neighbors''"
    unfolding example_run_3 attr_after_def by simp
  show ?thesis
    by (intro conjI example_seed_contract example_scrub_attrs(3) e det example_run_3 nin fr)
qed

subsection \<open>Neighbourhood size and Bayesian scores\<close>

lemma spec_q_range:
  assumes "0 \<le> nd" and "nd \<le> N"
  shows "0 < spec_q N nd" and "spec_q N nd < 1"
  using assms by (simp_all add: spec_q_def)

lemma spec_denom_pos:
  fixes rho r q :: real
  assumes "0 < rho" and "rho < 1" and "0 < r" and "0 < q" and "q < 1"
  shows "0 < 1 - rho - q * (1 - rho - rho / r)"
proof -
  have eq: "1 - rho - q * (1 - rho - rho / r) = (1 - rho) * (1 - q) + q * (rho / r)"
    by (simp add: algebra_simps)
  have "0 < (1 - rho) * (1 - q)" using assms by simp
  moreover have "0 < q * (rho / r)" using assms by simp
  ultimately show ?thesis unfolding eq by linarith
qed

lemma Ld_finite:
  assumes "r \<noteq> 0" and "N + 2 \<noteq> 0"
    and "1 - rho - spec_q N nd * (1 - rho - rho / r) \<noteq> 0"
  shows "Ld (Fin rho) (Fin r) (Fin N) (Fin nd) = Fin (spec_Ld rho r N nd)"
  using assms
  by (simp add: Ld_def spec_Ld_def bayes_q_def bayes_denom_def f_sub_def spec_q_def Let_def)

lemma se_Ld_finite:
  assumes "r \<noteq> 0" and "rho \<noteq> 0" and "0 \<le> nd" and "nd \<le> N"
    and "1 - rho - spec_q N nd * (1 - rho - rho / r) \<noteq> 0"
  shows "se_Ld (Fin rho) (Fin sigma) (Fin r) (Fin N) (Fin nd) = Fin (spec_se_Ld rho sigma r N nd)"
proof -
  have q: "0 < spec_q N nd" "spec_q N nd < 1" using assms(3,4) by (rule spec_q_range)+
  have N: "N + 2 \<noteq> 0" "N + 3 \<noteq> 0" using assms(3,4) by simp_all
  have nn: "0 \<le> spec_q N nd * (1 - spec_q N nd) / (N + 3)"
    using q assms(3,4) by simp
  show ?thesis
    using assms(1,2,5) q N nn
    by (simp add: se_Ld_def spec_se_Ld_def spec_se_q_def bayes_q_def bayes_denom_def f_sub_def
        f_square_def Let_def power2_eq_square spec_q_def [symmetric])
qed

lemma frac_le_cross:
  fixes x y b d :: real
  assumes "0 < b" and "0 < d" and "x * d \<le> y * b"
  shows "x / b \<le> y / d"
  using assms by (simp add: field_simps)

lemma ratio_mono_aux:
  fixes rho a q q' :: real
  assumes "rho < 1" and "0 < a" and "q \<le> q'"
    and "0 < 1 - rho - q * (1 - rho - a)" and "0 < 1 - rho - q' * (1 - rho - a)"
  shows "q * a / (1 - rho - q * (1 - rho - a)) \<le> q' * a / (1 - rho - q' * (1 - rho - a))"
proof -
  let ?D = "1 - rho - q * (1 - rho - a)"
  let ?D' = "1 - rho - q' * (1 - rho - a)"
  have "q' * a * ?D - q * a * ?D' = a * (1 - rho) * (q' - q)"
    by (simp add: algebra_simps)
  moreover have "0 \<le> a * (1 - rho) * (q' - q)" using assms by simp
  ultimately have "q * a * ?D' \<le> q' * a * ?D" by linarith
  then show ?thesis using assms(4,5) by (intro frac_le_cross)
qed

lemma spec_Ld_mono_q:
  fixes rho r q q' :: real
  assumes "0 < rho" and "rho < 1" and "0 < r" and "0 < q" and "q \<le> q'" and "q' < 1"
  shows "0 \<le> q * rho / r / (1 - rho - q * (1 - rho - rho / r))"
    and "q * rho / r / (1 - rho - q * (1 - rho - rho / r))
          \<le> q' * rho / r / (1 - rho - q' * (1 - rho - rho / r))"
proof -
  let ?D = "1 - rho - q * (1 - rho - rho / r)"
  let ?D' = "1 - rho - q' * (1 - rho - rho / r)"
  have D: "0 < ?D" using assms by (intro spec_denom_pos) simp_all
  have D': "0 < ?D'" using assms by (intro spec_denom_pos) simp_all
  have a: "0 < rho / r" using assms by simp
  show "0 \<le> q * rho / r / ?D" using assms D by simp
  from ratio_mono_aux [OF assms(2) a assms(5) D D']
  show "q * rho / r / ?D \<le> q' * rho / r / ?D'" by simp
qed

text \<open>
  Claim C4. For \<open>0 < rho < 1\<close>, \<open>r > 0\<close> and \<open>N \<ge> 1\<close>, the score computed from
  \<open>nd\<close> is a finite, non-negative number for every \<open>nd\<close> in \<open>[0, N]\<close>, and it does not
  decrease when \<open>nd\<close> grows within \<open>[0, N]\<close>.
\<close>

theorem Ld_nonneg_mono:
  assumes "0 < rho" and "rho < 1" and "0 < r" and "1 \<le> N"
    and "0 \<le> nd" and "nd \<le> nd'" and "nd' \<le> N"
  shows "\<exists>a b. Ld (Fin rho) (Fin r) (Fin N) (Fin nd) = Fin a \<and>
               Ld (Fin rho) (Fin r) (Fin N) (Fin nd') = Fin b \<and>
               0 \<le> a \<and> a \<le> b"
proof -
  have q: "0 < spec_q N nd" "spec_q N nd < 1" using assms by (intro spec_q_range; simp)+
  have q': "0 < spec_q N nd'" "spec_q N nd' < 1" using assms by (intro spec_q_range; simp)+
  have le: "spec_q N nd \<le> spec_q N nd'"
    using assms by (simp add: spec_q_def divide_right_mono)
  have D: "1 - rho - spec_q N nd * (1 - rho - rho / r) \<noteq> 0"
    using spec_denom_pos [OF assms(1,2,3) q] by simp
  have D': "1 - rho - spec_q N nd' * (1 - rho - rho / r) \<noteq> 0"
    using spec_denom_pos [OF assms(1,2,3) q'] by simp
  have r: "r \<noteq> 0" and N: "N + 2 \<noteq> 0" using assms by simp_all
  have "0 \<le> spec_Ld rho r N nd" and "spec_Ld rho r N nd \<le> spec_Ld rho r N nd'"
    unfolding spec_Ld_def Let_def
    using spec_Ld_mono_q [OF assms(1,2,3) q(1) le q'(2)] by simp_all
  with Ld_finite [OF r N D] Ld_finite [OF r N D'] show ?thesis by blast
qed

theorem Ld_nonneg_mono_witness:
  "(0::real) < 1 / 10 \<and> (1::real) / 10 < 1 \<and> (0::real) < 2 \<and> (1::real) \<le> 3 \<and>
   (0::real) \<le> 1 \<and> (1::real) \<le> 2 \<and> (2::real) \<le> 3 \<and>
   (\<exists>a b. Ld (Fin (1 / 10)) (Fin 2) (Fin 3) (Fin 1) = Fin a \<and>
          Ld (Fin (1 / 10)) (Fin 2) (Fin 3) (Fin 2) = Fin b \<and>
          0 \<le> a \<and> a \<le> b)"
  using Ld_nonneg_mono [of "1 / 10" 2 3 1 2] by simp


lemma round_half_even_ge:
  assumes "real_of_int k \<le> x"
  shows "k \<le> round_half_even x"
proof -
  from assms have "k \<le> \<lfloor>x\<rfloor>" by (simp add: le_floor_iff)
  then show ?thesis unfolding round_half_even_def Let_def by auto
qed



lemma label_counts:
  "length (filter (\<lambda>l. l = 0) (replicate a (0::int) @ replicate b 1)) = a"
  "length (filter (\<lambda>l. l = 1) (replicate a (0::int) @ replicate b 1)) = b"
  by simp_all


lemma zip_replicate_filter:
  "map fst (filter snd (zip xs (replicate (length xs) True))) = xs"
  "map fst (filter snd (zip xs (replicate (length xs) False))) = []"
  by (induction xs) simp_all

lemma mask_append:
  "map fst (filter snd (zip (ys @ zs) (replicate (length ys) True @ replicate (length zs) False))) = ys"
  "map fst (filter snd (zip (ys @ zs) (replicate (length ys) False @ replicate (length zs) True))) = zs"
  by (simp_all add: zip_replicate_filter)

lemma mask_prefix:
  assumes "length xs = a + b"
  shows "map fst (filter snd (zip xs (replicate a True @ replicate b False))) = take a xs"
    and "map fst (filter snd (zip xs (replicate a False @ replicate b True))) = drop a xs"
proof -
  have la: "length (take a xs) = a" and lb: "length (drop a xs) = b" using assms by simp_all
  from mask_append [of "take a xs" "drop a xs"]
  show "map fst (filter snd (zip xs (replicate a True @ replicate b False))) = take a xs"
    and "map fst (filter snd (zip xs (replicate a False @ replicate b True))) = drop a xs"
    unfolding la lb by simp_all
qed

lemma np_mask_labels:
  assumes "length xs = a + b"
  shows "np_mask xs (map (\<lambda>l. l = 0) (replicate a (0::int) @ replicate b 1)) = Inr (take a xs)"
    and "np_mask xs (map (\<lambda>l. l = 1) (replicate a (0::int) @ replicate b 1)) = Inr (drop a xs)"
  using assms mask_prefix [OF assms] by (simp_all add: np_mask_def)

lemma label_nth:
  assumes "0 \<le> j" and "j < int (a + b)"
  shows "((replicate a (0::int) @ replicate b 1) ! nat j = 1) = (int a \<le> j)"
  using assms by (auto simp: nth_append nat_less_iff)

lemma count_sim_labels:
  assumes "\<forall>j \<in> set row. 0 \<le> j \<and> j < int (a + b)"
  shows "length (filter (\<lambda>l. l = 1) (map (\<lambda>j. (replicate a (0::int) @ replicate b 1) ! nat j) row))
         = length (filter (\<lambda>j. int a \<le> j) row)"
proof -
  have "filter (\<lambda>j. (replicate a (0::int) @ replicate b 1) ! nat j = 1) row = filter (\<lambda>j. int a \<le> j) row"
    using assms by (intro filter_cong refl) (simp add: label_nth)
  then show ?thesis by (simp add: filter_map comp_def)
qed

lemma classifier_unfold:
  assumes mo: "self ''manifold_obs_'' = Some (FloatMat manifold_obs)"
    and ms: "self ''manifold_sim_'' = Some (FloatMat manifold_sim)"
    and cols: "shape1 manifold_obs = shape1 manifold_sim"
    and n_obs: "0 < length manifold_obs" and n_sim: "0 < length manifold_sim"
    and k: "0 \<le> k"
    and rs: "self ''random_state'' = Some seed"
    and knn: "get_knn_graph ext (manifold_obs @ manifold_sim)
                (round_half_even (real_of_int k * (1 + real (length manifold_sim) / real (length manifold_obs))))
                metric approx seed = Inr neighbors"
    and rows: "length neighbors = length manifold_obs + length manifold_sim"
    and graph: "\<forall>row \<in> set neighbors.
                  int (length row) \<le> round_half_even (real_of_int k * (1 + real (length manifold_sim) / real (length manifold_obs))) \<and>
                  (\<forall>j \<in> set row. 0 \<le> j \<and> j < int (length manifold_obs + length manifold_sim))"
    and rho: "0 < rho" "rho < 1"
  defines "r \<equiv> real (length manifold_sim) / real (length manifold_obs)"
    and "N \<equiv> real_of_int (round_half_even (real_of_int k * (1 + real (length manifold_sim) / real (length manifold_obs))))"
  shows "nearest_neighbor_classifier ext self k approx metric (Fin rho) (Fin sigma) parents =
     (let self1 = self(
        ''doublet_scores_obs_'' \<mapsto> FloatArr (map (\<lambda>row. Fin (spec_Ld rho r N (real (n_sim_neighbors (length manifold_obs) row))))
                                           (take (length manifold_obs) neighbors)),
        ''doublet_scores_sim_'' \<mapsto> FloatArr (map (\<lambda>row. Fin (spec_Ld rho r N (real (n_sim_neighbors (length manifold_obs) row))))
                                           (drop (length manifold_obs) neighbors)),
        ''doublet_errors_obs_'' \<mapsto> FloatArr (map (\<lambda>row. Fin (spec_se_Ld rho sigma r N (real (n_sim_neighbors (length manifold_obs) row))))
                                           (take (length manifold_obs) neighbors)),
        ''doublet_errors_sim_'' \<mapsto> FloatArr (map (\<lambda>row. Fin (spec_se_Ld rho sigma r N (real (n_sim_neighbors (length manifold_obs) row))))
                                           (drop (length manifold_obs) neighbors)))
      in if parents
         then bind_res (getattr self1 ''doublet_parents_'') (\<lambda>pc_v.
              bind_res (as_int_mat pc_v) (\<lambda>parent_cells.
              bind_res (map_res (\<lambda>iCell.
                          bind_res (np_index (map (map (\<lambda>j. j - int (length manifold_obs))) neighbors) (int iCell))
                            (doublet_neighbor_parents_of parent_cells))
                        [0..<length manifold_obs]) (\<lambda>neighbor_parents.
              Inr (self1(''doublet_neighbor_parents_'' \<mapsto> PyList neighbor_parents)))))
         else Inr self1)"
proof -
  let ?a = "length manifold_obs" and ?b = "length manifold_sim"
  let ?labels = "replicate ?a (0::int) @ replicate ?b 1"
  let ?K = "round_half_even (real_of_int k * (1 + real ?b / real ?a))"
  have stack: "np_vstack manifold_obs manifold_sim = Inr (manifold_obs @ manifold_sim)"
    using cols by (simp add: np_vstack_def)
  have ka: "k_adj k (int ?b) (int ?a) = Inr ?K"
    using n_obs by (simp add: k_adj_def)
  have Kk: "k \<le> ?K"
  proof (rule round_half_even_ge)
    have "0 \<le> real_of_int k * (real ?b / real ?a)" using k by simp
    then show "real_of_int k \<le> real_of_int k * (1 + real ?b / real ?a)"
      by (simp add: algebra_simps)
  qed
  then have N0: "0 \<le> N" using k by (simp add: N_def)
  have rpos: "0 < r" using n_obs n_sim by (simp add: r_def)
  have rdiv: "f_div (Fin (real ?b)) (Fin (real ?a)) = Fin r"
    using n_obs by (simp add: r_def)
  have take_labels: "map_res (np_take ?labels) neighbors =
      Inr (map (\<lambda>row. map (\<lambda>j. ?labels ! nat j) row) neighbors)"
  proof (rule map_res_Inr)
    fix row assume "row \<in> set neighbors"
    with graph have "\<forall>j \<in> set row. 0 \<le> j \<and> j < int (length ?labels)" by simp
    then show "np_take ?labels row = Inr (map (\<lambda>j. ?labels ! nat j) row)"
      by (rule np_take_in_range)
  qed
  have score: "Ld (Fin rho) (Fin r) (Fin N)
          (Fin (real_of_int (int (length (filter (\<lambda>l. l = 1) (map (\<lambda>j. ?labels ! nat j) row))))))
        = Fin (spec_Ld rho r N (real (n_sim_neighbors ?a row)))"
    and err: "se_Ld (Fin rho) (Fin sigma) (Fin r) (Fin N)
          (Fin (real_of_int (int (length (filter (\<lambda>l. l = 1) (map (\<lambda>j. ?labels ! nat j) row))))))
        = Fin (spec_se_Ld rho sigma r N (real (n_sim_neighbors ?a row)))"
    if mem: "row \<in> set neighbors" for row
  proof -
    from mem graph have rng: "\<forall>j \<in> set row. 0 \<le> j \<and> j < int (?a + ?b)"
      and len: "int (length row) \<le> ?K" by auto
    have cnt: "length (filter (\<lambda>l. l = 1) (map (\<lambda>j. ?labels ! nat j) row)) = n_sim_neighbors ?a row"
      unfolding n_sim_neighbors_def by (rule count_sim_labels [OF rng])
    have "n_sim_neighbors ?a row \<le> length row" by (simp add: n_sim_neighbors_def)
    with len have "int (n_sim_neighbors ?a row) \<le> ?K" by linarith
    then have ndN: "real (n_sim_neighbors ?a row) \<le> N"
      unfolding N_def by (metis of_int_le_iff of_int_of_nat_eq)
    have nd0: "0 \<le> real (n_sim_neighbors ?a row)" by simp
    have q: "0 < spec_q N (real (n_sim_neighbors ?a row))" "spec_q N (real (n_sim_neighbors ?a row)) < 1"
      using nd0 ndN by (rule spec_q_range)+
    have D: "1 - rho - spec_q N (real (n_sim_neighbors ?a row)) * (1 - rho - rho / r) \<noteq> 0"
      using spec_denom_pos [OF rho rpos q] by simp
    have r0: "r \<noteq> 0" and rho0: "rho \<noteq> 0" and N2: "N + 2 \<noteq> 0" using rpos rho N0 by simp_all
    show "Ld (Fin rho) (Fin r) (Fin N)
          (Fin (real_of_int (int (length (filter (\<lambda>l. l = 1) (map (\<lambda>j. ?labels ! nat j) row))))))
        = Fin (spec_Ld rho r N (real (n_sim_neighbors ?a row)))"
      unfolding cnt using Ld_finite [OF r0 N2 D] by simp
    show "se_Ld (Fin rho) (Fin sigma) (Fin r) (Fin N)
          (Fin (real_of_int (int (length (filter (\<lambda>l. l = 1) (map (\<lambda>j. ?labels ! nat j) row))))))
        = Fin (spec_se_Ld rho sigma r N (real (n_sim_neighbors ?a row)))"
      unfolding cnt using se_Ld_finite [OF r0 rho0 nd0 ndN D] by simp
  qed
  have Ld_all: "map (Ld (Fin rho) (Fin r) (Fin N))
        (map (\<lambda>c. Fin (real_of_int c))
          (map (\<lambda>row. int (length (filter (\<lambda>l. l = 1) row)))
            (map (\<lambda>row. map (\<lambda>j. ?labels ! nat j) row) neighbors)))
      = map (\<lambda>row. Fin (spec_Ld rho r N (real (n_sim_neighbors ?a row)))) neighbors"
    using score by (simp add: comp_def)
  have se_all: "map (se_Ld (Fin rho) (Fin sigma) (Fin r) (Fin N))
        (map (\<lambda>c. Fin (real_of_int c))
          (map (\<lambda>row. int (length (filter (\<lambda>l. l = 1) row)))
            (map (\<lambda>row. map (\<lambda>j. ?labels ! nat j) row) neighbors)))
      = map (\<lambda>row. Fin (spec_se_Ld rho sigma r N (real (n_sim_neighbors ?a row)))) neighbors"
    using err by (simp add: comp_def)
  have len1: "length (map (\<lambda>row. Fin (spec_Ld rho r N (real (n_sim_neighbors ?a row)))) neighbors) = ?a + ?b"
    and len2: "length (map (\<lambda>row. Fin (spec_se_Ld rho sigma r N (real (n_sim_neighbors ?a row)))) neighbors) = ?a + ?b"
    using rows by simp_all
  have ga: "getattr self ''manifold_obs_'' = Inr (FloatMat manifold_obs)"
    "getattr self ''manifold_sim_'' = Inr (FloatMat manifold_sim)"
    "getattr self ''random_state'' = Inr seed"
    using mo ms rs by simp_all
  show ?thesis
    unfolding nearest_neighbor_classifier_def
    apply (simp only: ga bind_res_Inr
        as_float_mat.simps stack shape0_def Let_def label_counts ka knn take_labels
        of_int_of_nat_eq rdiv N_def [symmetric] Ld_all se_all
        np_mask_labels [OF len1] np_mask_labels [OF len2] take_map drop_map nat_int)
    done
qed

text \<open>
  Claim C2. Let the neighbour graph returned for the pooled embedding have one row per
  pooled point, each row with at most \<open>k_adj\<close> entries, all of them pooled indices, and
  let \<open>0 < rho < 1\<close>. For every pooled point, with \<open>nd\<close> the number of its neighbours
  in the simulated range, \<open>N = k_adj\<close> and \<open>r = n_sim / n_obs\<close>, the score the
  classifier stores is the specification's \<open>L_d\<close> and the error is the specification's
  \<open>se_Ld\<close>, both finite; the observed points come first and keep their order. The
  stored arrays are this function of the graph and the parameters: neither the seed nor
  the coordinates occur in them.
\<close>

theorem classifier_scores:
  assumes "self ''manifold_obs_'' = Some (FloatMat manifold_obs)"
    and "self ''manifold_sim_'' = Some (FloatMat manifold_sim)"
    and "shape1 manifold_obs = shape1 manifold_sim"
    and "n_obs = length manifold_obs" and "n_sim = length manifold_sim"
    and "0 < n_obs" and "0 < n_sim" and "0 \<le> k"
    and "self ''random_state'' = Some seed"
    and "r = real n_sim / real n_obs"
    and "K = round_half_even (real_of_int k * (1 + real n_sim / real n_obs))"
    and "N = real_of_int K"
    and "get_knn_graph ext (manifold_obs @ manifold_sim) K metric approx seed = Inr neighbors"
    and "length neighbors = n_obs + n_sim"
    and "\<forall>row \<in> set neighbors.
           int (length row) \<le> K \<and> (\<forall>j \<in> set row. 0 \<le> j \<and> j < int (n_obs + n_sim))"
    and "0 < rho" and "rho < 1"
  shows "(\<forall>self'. nearest_neighbor_classifier ext self k approx metric (Fin rho) (Fin sigma) parents
                    = Inr self' \<longrightarrow>
            self' ''doublet_scores_obs_'' =
              Some (FloatArr (map (\<lambda>row. Fin (spec_Ld rho r N (real (n_sim_neighbors n_obs row))))
                               (take n_obs neighbors))) \<and>
            self' ''doublet_scores_sim_'' =
              Some (FloatArr (map (\<lambda>row. Fin (spec_Ld rho r N (real (n_sim_neighbors n_obs row))))
                               (drop n_obs neighbors))) \<and>
            self' ''doublet_errors_obs_'' =
              Some (FloatArr (map (\<lambda>row. Fin (spec_se_Ld rho sigma r N (real (n_sim_neighbors n_obs row))))
                               (take n_obs neighbors))) \<and>
            self' ''doublet_errors_sim_'' =
              Some (FloatArr (map (\<lambda>row. Fin (spec_se_Ld rho sigma r N (real (n_sim_neighbors n_obs row))))
                               (drop n_obs neighbors)))) \<and>
         (\<exists>self'. nearest_neighbor_classifier ext self k approx metric (Fin rho) (Fin sigma) False
                    = Inr self')"
proof -
  note unf = classifier_unfold [OF assms(1,2,3) assms(6) [unfolded assms(4)]
      assms(7) [unfolded assms(5)] assms(8,9)
      assms(13) [unfolded assms(11) assms(4) assms(5)]
      assms(14) [unfolded assms(4) assms(5)]
      assms(15) [unfolded assms(11) assms(4) assms(5)] assms(16,17),
      of sigma, folded assms(4) assms(5), folded assms(10) assms(11), folded assms(12)]
  show ?thesis
  proof (intro conjI allI impI)
    show "\<exists>self'. nearest_neighbor_classifier ext self k approx metric (Fin rho) (Fin sigma) False
                    = Inr self'"
      using unf [of False] by (simp add: Let_def)
  next
    fix self'
    assume run: "nearest_neighbor_classifier ext self k approx metric (Fin rho) (Fin sigma) parents
                    = Inr self'"
    have "\<exists>x. self' = (self(
        ''doublet_scores_obs_'' \<mapsto> FloatArr (map (\<lambda>row. Fin (spec_Ld rho r N (real (n_sim_neighbors n_obs row))))
                                           (take n_obs neighbors)),
        ''doublet_scores_sim_'' \<mapsto> FloatArr (map (\<lambda>row. Fin (spec_Ld rho r N (real (n_sim_neighbors n_obs row))))
                                           (drop n_obs neighbors)),
        ''doublet_errors_obs_'' \<mapsto> FloatArr (map (\<lambda>row. Fin (spec_se_Ld rho sigma r N (real (n_sim_neighbors n_obs row))))
                                           (take n_obs neighbors)),
        ''doublet_errors_sim_'' \<mapsto> FloatArr (map (\<lambda>row. Fin (spec_se_Ld rho sigma r N (real (n_sim_neighbors n_obs row))))
                                           (drop n_obs neighbors))))(''doublet_neighbor_parents_'' := x)"
    proof (cases parents)
      case True
      with run unf [of True] show ?thesis
        by (auto simp: Let_def elim!: bind_res_InrE)
    next
      case False
      with run unf [of False] show ?thesis
        by (auto simp: Let_def intro!: exI [of _ "self ''doublet_neighbor_parents_''"])
    qed
    then obtain x where s: "self' = (self(
        ''doublet_scores_obs_'' \<mapsto> FloatArr (map (\<lambda>row. Fin (spec_Ld rho r N (real (n_sim_neighbors n_obs row))))
                                           (take n_obs neighbors)),
        ''doublet_scores_sim_'' \<mapsto> FloatArr (map (\<lambda>row. Fin (spec_Ld rho r N (real (n_sim_neighbors n_obs row))))
                                           (drop n_obs neighbors)),
        ''doublet_errors_obs_'' \<mapsto> FloatArr (map (\<lambda>row. Fin (spec_se_Ld rho sigma r N (real (n_sim_neighbors n_obs row))))
                                           (take n_obs neighbors)),
        ''doublet_errors_sim_'' \<mapsto> FloatArr (map (\<lambda>row. Fin (spec_se_Ld rho sigma r N (real (n_sim_neighbors n_obs row))))
                                           (drop n_obs neighbors))))(''doublet_neighbor_parents_'' := x)"
      by blast
    show "self' ''doublet_scores_obs_'' =
              Some (FloatArr (map (\<lambda>row. Fin (spec_Ld rho r N (real (n_sim_neighbors n_obs row))))
                               (take n_obs neighbors)))"
      unfolding s by simp
    show "self' ''doublet_scores_sim_'' =
              Some (FloatArr (map (\<lambda>row. Fin (spec_Ld rho r N (real (n_sim_neighbors n_obs row))))
                               (drop n_obs neighbors)))"
      unfolding s by simp
    show "self' ''doublet_errors_obs_'' =
              Some (FloatArr (map (\<lambda>row. Fin (spec_se_Ld rho sigma r N (real (n_sim_neighbors n_obs row))))
                               (take n_obs neighbors)))"
      unfolding s by simp
    show "self' ''doublet_errors_sim_'' =
              Some (FloatArr (map (\<lambda>row. Fin (spec_se_Ld rho sigma r N (real (n_sim_neighbors n_obs row))))
                               (drop n_obs neighbors)))"
      unfolding s by simp
  qed
qed

lemma example_embedded_attrs:
  "example_embedded k ''manifold_obs_'' = Some (FloatMat [[Fin 0, Fin 0], [Fin 1, Fin 0]])"
  "example_embedded k ''manifold_sim_'' =
     Some (FloatMat [[Fin 0, Fin 1], [Fin 1, Fin 1], [Fin 2, Fin 1], [Fin 2, Fin 2]])"
  "example_embedded k ''random_state'' = Some (PyInt 0)"
  "example_embedded k ''n_neighbors'' = Some (PyInt k)"
  "example_embedded k ''expected_doublet_rate'' = Some (PyFloat (Fin (1 / 10)))"
  "example_embedded k ''stdev_doublet_rate'' = Some (PyFloat (Fin (2 / 100)))"
  "example_embedded k ''threshold_'' = None"
  by (simp_all add: example_embedded_def set_manifold_def Scrublet_init_def)

lemma round_half_even_of_int [simp]: "round_half_even (real_of_int n) = n"
  by (simp add: round_half_even_def)

lemma example_K: "round_half_even (real_of_int 1 * (1 + real 4 / real 2)) = 3"
proof -
  have "real_of_int 1 * (1 + real 4 / real 2) = real_of_int 3" by simp
  then show ?thesis by (simp only: round_half_even_of_int)
qed

lemma example_knn_3:
  "get_knn_graph example_ext
     ([[Fin 0, Fin 0], [Fin 1, Fin 0]] @ [[Fin 0, Fin 1], [Fin 1, Fin 1], [Fin 2, Fin 1], [Fin 2, Fin 2]])
     3 ''euclidean'' True (PyInt 0) = Inr example_neighbors"
  by (simp add: example_ext_def example_neighbors_def upt_conv_Cons)

theorem classifier_scores_witness:
  "example_embedded 1 ''manifold_obs_'' = Some (FloatMat [[Fin 0, Fin 0], [Fin 1, Fin 0]]) \<and>
   example_embedded 1 ''manifold_sim_'' =
     Some (FloatMat [[Fin 0, Fin 1], [Fin 1, Fin 1], [Fin 2, Fin 1], [Fin 2, Fin 2]]) \<and>
   example_embedded 1 ''random_state'' = Some (PyInt 0) \<and>
   get_knn_graph example_ext
     ([[Fin 0, Fin 0], [Fin 1, Fin 0]] @ [[Fin 0, Fin 1], [Fin 1, Fin 1], [Fin 2, Fin 1], [Fin 2, Fin 2]])
     3 ''euclidean'' True (PyInt 0) = Inr example_neighbors \<and>
   length example_neighbors = 2 + 4 \<and>
   list_all (\<lambda>row. int (length row) \<le> 3 \<and> list_all (\<lambda>j. 0 \<le> j \<and> j < 6) row) example_neighbors \<and>
   (\<exists>self'.
      nearest_neighbor_classifier example_ext (example_embedded 1) 1 True ''euclidean''
        (Fin (1 / 10)) (Fin (2 / 100)) False = Inr self' \<and>
      self' ''doublet_scores_obs_'' =
        Some (FloatArr (map (\<lambda>row. Fin (spec_Ld (1 / 10) 2 3 (real (n_sim_neighbors 2 row))))
                         (take 2 example_neighbors))) \<and>
      self' ''doublet_scores_sim_'' =
        Some (FloatArr (map (\<lambda>row. Fin (spec_Ld (1 / 10) 2 3 (real (n_sim_neighbors 2 row))))
                         (drop 2 example_neighbors))) \<and>
      self' ''doublet_errors_obs_'' =
        Some (FloatArr (map (\<lambda>row. Fin (spec_se_Ld (1 / 10) (2 / 100) 2 3 (real (n_sim_neighbors 2 row))))
                         (take 2 example_neighbors))) \<and>
      self' ''doublet_errors_sim_'' =
        Some (FloatArr (map (\<lambda>row. Fin (spec_se_Ld (1 / 10) (2 / 100) 2 3 (real (n_sim_neighbors 2 row))))
                         (drop 2 example_neighbors))))"
proof -
  have g: "list_all (\<lambda>row. int (length row) \<le> 3 \<and> list_all (\<lambda>j. 0 \<le> j \<and> j < 6) row) example_neighbors"
    by (simp add: example_neighbors_def)
  then have g': "\<forall>row \<in> set example_neighbors.
           int (length row) \<le> 3 \<and> (\<forall>j \<in> set row. 0 \<le> j \<and> j < int (2 + 4))"
    by (simp add: list_all_iff)
  have len: "length example_neighbors = 2 + 4" by (simp add: example_neighbors_def)
  note th = classifier_scores [of "example_embedded 1" "[[Fin 0, Fin 0], [Fin 1, Fin 0]]"
      "[[Fin 0, Fin 1], [Fin 1, Fin 1], [Fin 2, Fin 1], [Fin 2, Fin 2]]" 2 4 1 "PyInt 0" 2 3 3
      example_ext "''euclidean''" True example_neighbors "1 / 10" "2 / 100" False,
      OF example_embedded_attrs(1) example_embedded_attrs(2) _ _ _ _ _ _ example_embedded_attrs(3)
         _ _ _ example_knn_3 len g']
  have th': "(\<forall>self'. nearest_neighbor_classifier example_ext (example_embedded 1) 1 True ''euclidean''
        (Fin (1 / 10)) (Fin (2 / 100)) False = Inr self' \<longrightarrow>
      self' ''doublet_scores_obs_'' =
        Some (FloatArr (map (\<lambda>row. Fin (spec_Ld (1 / 10) 2 3 (real (n_sim_neighbors 2 row))))
                         (take 2 example_neighbors))) \<and>
      self' ''doublet_scores_sim_'' =
        Some (FloatArr (map (\<lambda>row. Fin (spec_Ld (1 / 10) 2 3 (real (n_sim_neighbors 2 row))))
                         (drop 2 example_neighbors))) \<and>
      self' ''doublet_errors_obs_'' =
        Some (FloatArr (map (\<lambda>row. Fin (spec_se_Ld (1 / 10) (2 / 100) 2 3 (real (n_sim_neighbors 2 row))))
                         (take 2 example_neighbors))) \<and>
      self' ''doublet_errors_sim_'' =
        Some (FloatArr (map (\<lambda>row. Fin (spec_se_Ld (1 / 10) (2 / 100) 2 3 (real (n_sim_neighbors 2 row))))
                         (drop 2 example_neighbors)))) \<and>
     (\<exists>self'. nearest_neighbor_classifier example_ext (example_embedded 1) 1 True ''euclidean''
        (Fin (1 / 10)) (Fin (2 / 100)) False = Inr self')"
    by (rule th) (simp_all add: shape1_def example_K [simplified])
  then have ex: "\<exists>self'.
      nearest_neighbor_classifier example_ext (example_embedded 1) 1 True ''euclidean''
        (Fin (1 / 10)) (Fin (2 / 100)) False = Inr self' \<and>
      self' ''doublet_scores_obs_'' =
        Some (FloatArr (map (\<lambda>row. Fin (spec_Ld (1 / 10) 2 3 (real (n_sim_neighbors 2 row))))
                         (take 2 example_neighbors))) \<and>
      self' ''doublet_scores_sim_'' =
        Some (FloatArr (map (\<lambda>row. Fin (spec_Ld (1 / 10) 2 3 (real (n_sim_neighbors 2 row))))
                         (drop 2 example_neighbors))) \<and>
      self' ''doublet_errors_obs_'' =
        Some (FloatArr (map (\<lambda>row. Fin (spec_se_Ld (1 / 10) (2 / 100) 2 3 (real (n_sim_neighbors 2 row))))
                         (take 2 example_neighbors))) \<and>
      self' ''doublet_errors_sim_'' =
        Some (FloatArr (map (\<lambda>row. Fin (spec_se_Ld (1 / 10) (2 / 100) 2 3 (real (n_sim_neighbors 2 row))))
                         (drop 2 example_neighbors)))"
    by blast
  show ?thesis
    by (intro conjI example_embedded_attrs(1) example_embedded_attrs(2) example_embedded_attrs(3)
        example_knn_3 len g ex)
qed


subsection \<open>Calling doublets\<close>

text \<open>
  Claim C10. When no threshold is given and the automatic search raises, the call
  returns the object with \<open>predicted_doublets_\<close> set to \<^verbatim>\<open>None\<close> and every other
  attribute as it was: \<open>threshold_\<close>, \<open>z_scores_\<close>, \<open>detected_doublet_rate_\<close>,
  \<open>detectable_doublet_fraction_\<close> and \<open>overall_doublet_rate_\<close> stay unset, or keep the
  values of an earlier call.
\<close>

theorem call_doublets_search_fails:
  assumes "automatic_threshold ext self = Inl e"
  shows "call_doublets ext self None = Inr (self(''predicted_doublets_'' \<mapsto> PyNone)) \<and>
         (\<forall>self'. call_doublets ext self None = Inr self' \<longrightarrow>
            self' ''predicted_doublets_'' = Some PyNone \<and>
            self' ''threshold_'' = self ''threshold_'' \<and>
            self' ''z_scores_'' = self ''z_scores_'' \<and>
            self' ''detected_doublet_rate_'' = self ''detected_doublet_rate_'' \<and>
            self' ''detectable_doublet_fraction_'' = self ''detectable_doublet_fraction_'' \<and>
            self' ''overall_doublet_rate_'' = self ''overall_doublet_rate_'' \<and>
            (\<forall>a. a \<noteq> ''predicted_doublets_'' \<longrightarrow> self' a = self a))"
  using assms by (simp add: call_doublets_def)

lemma as_float_arr_Inr: "as_float_arr v = Inr xs \<Longrightarrow> v = FloatArr xs"
  by (cases v) simp_all

lemma getattr_Inr: "getattr s a = Inr v \<Longrightarrow> s a = Some v"
  by (simp add: getattr_def split: option.splits)

lemma fraction_above_cases:
  "fraction_above t xs = NaN \<or> (\<exists>x. fraction_above t xs = Fin x \<and> 0 \<le> x)"
  by (simp add: fraction_above_def)

lemma div_zero_not_finite:
  assumes "d = NaN \<or> (\<exists>x. d = Fin x \<and> 0 \<le> x)"
  shows "\<not> is_finite (f_div d (Fin 0))"
  using assms by (auto simp: is_finite_def split: if_splits)

lemma call_doublets_success:
  assumes "(case threshold of None \<Rightarrow> automatic_threshold ext self | Some t \<Rightarrow> Inr t) = Inr t"
    and "call_doublets ext self threshold = Inr self'"
  shows "\<exists>Ld_obs Ld_sim se_obs Z.
           self ''doublet_scores_obs_'' = Some (FloatArr Ld_obs) \<and>
           self ''doublet_scores_sim_'' = Some (FloatArr Ld_sim) \<and>
           self ''doublet_errors_obs_'' = Some (FloatArr se_obs) \<and>
           self' = self(''predicted_doublets_'' \<mapsto> BoolArr (map (\<lambda>x. f_less t x) Ld_obs),
                       ''z_scores_'' \<mapsto> FloatArr Z,
                       ''threshold_'' \<mapsto> PyFloat t,
                       ''detected_doublet_rate_'' \<mapsto> PyFloat (fraction_above t Ld_obs),
                       ''detectable_doublet_fraction_'' \<mapsto> PyFloat (fraction_above t Ld_sim),
                       ''overall_doublet_rate_'' \<mapsto>
                          PyFloat (f_div (fraction_above t Ld_obs) (fraction_above t Ld_sim)))"
proof -
  have found: "(case threshold of
              None \<Rightarrow> (case automatic_threshold ext self of Inl e \<Rightarrow> None | Inr t \<Rightarrow> Some t)
            | Some t \<Rightarrow> Some t) = Some t"
    using assms(1) by (cases threshold) simp_all
  from assms(2) show ?thesis
    unfolding call_doublets_def found option.case Let_def
    by (auto elim!: bind_res_InrE dest!: as_float_arr_Inr getattr_Inr)
qed

text \<open>
  Claim C9. When a threshold \<open>t\<close> is given or found and the call returns,
  \<open>overall_doublet_rate_\<close> is the float64 quotient of \<open>detected_doublet_rate_\<close> and
  \<open>detectable_doublet_fraction_\<close>, the fractions of observed and of simulated scores
  above \<open>t\<close>; when the detectable fraction is \<open>0\<close> the quotient is an infinity or
  not-a-number, not a finite value.
\<close>

theorem overall_doublet_rate:
  assumes "(case threshold of None \<Rightarrow> automatic_threshold ext self | Some t \<Rightarrow> Inr t) = Inr t"
    and "call_doublets ext self threshold = Inr self'"
  shows "\<exists>Ld_obs Ld_sim d f.
           self ''doublet_scores_obs_'' = Some (FloatArr Ld_obs) \<and>
           self ''doublet_scores_sim_'' = Some (FloatArr Ld_sim) \<and>
           d = fraction_above t Ld_obs \<and> f = fraction_above t Ld_sim \<and>
           self' ''detected_doublet_rate_'' = Some (PyFloat d) \<and>
           self' ''detectable_doublet_fraction_'' = Some (PyFloat f) \<and>
           self' ''overall_doublet_rate_'' = Some (PyFloat (f_div d f)) \<and>
           (f = Fin 0 \<longrightarrow> \<not> is_finite (f_div d f))"
proof -
  from call_doublets_success [OF assms] obtain Ld_obs Ld_sim se_obs Z where
    a: "self ''doublet_scores_obs_'' = Some (FloatArr Ld_obs)"
       "self ''doublet_scores_sim_'' = Some (FloatArr Ld_sim)"
    and s: "self' = self(''predicted_doublets_'' \<mapsto> BoolArr (map (\<lambda>x. f_less t x) Ld_obs),
                       ''z_scores_'' \<mapsto> FloatArr Z,
                       ''threshold_'' \<mapsto> PyFloat t,
                       ''detected_doublet_rate_'' \<mapsto> PyFloat (fraction_above t Ld_obs),
                       ''detectable_doublet_fraction_'' \<mapsto> PyFloat (fraction_above t Ld_sim),
                       ''overall_doublet_rate_'' \<mapsto>
                          PyFloat (f_div (fraction_above t Ld_obs) (fraction_above t Ld_sim)))"
    by blast
  have nf: "fraction_above t Ld_sim = Fin 0 \<longrightarrow>
        \<not> is_finite (f_div (fraction_above t Ld_obs) (fraction_above t Ld_sim))"
    using div_zero_not_finite [OF fraction_above_cases [of t Ld_obs]] by simp
  show ?thesis
    apply (rule exI [of _ Ld_obs], rule exI [of _ Ld_sim])
    apply (rule exI [of _ "fraction_above t Ld_obs"], rule exI [of _ "fraction_above t Ld_sim"])
    using a nf unfolding s apply simp
    done
qed

lemma example_search_fails:
  "automatic_threshold example_ext
     (example_scored [Fin (1 / 10), Fin (1 / 10), Fin (1 / 10), Fin (1 / 10)]) = Inl RuntimeError"
  by (simp add: automatic_threshold_def example_scored_def example_ext_def)

theorem call_doublets_search_fails_witness:
  "automatic_threshold example_ext
     (example_scored [Fin (1 / 10), Fin (1 / 10), Fin (1 / 10), Fin (1 / 10)]) = Inl RuntimeError \<and>
   call_doublets example_ext
     (example_scored [Fin (1 / 10), Fin (1 / 10), Fin (1 / 10), Fin (1 / 10)]) None =
     Inr ((example_scored [Fin (1 / 10), Fin (1 / 10), Fin (1 / 10), Fin (1 / 10)])
            (''predicted_doublets_'' \<mapsto> PyNone))"
  by (intro conjI example_search_fails
      call_doublets_search_fails [OF example_search_fails, THEN conjunct1])

lemma example_call_quarter:
  "call_doublets example_ext
     (example_scored [Fin (1 / 10), Fin (1 / 10), Fin (1 / 5), Fin (1 / 5)]) (Some (Fin (1 / 4))) =
   Inr ((example_scored [Fin (1 / 10), Fin (1 / 10), Fin (1 / 5), Fin (1 / 5)])
          (''predicted_doublets_'' \<mapsto> BoolArr [True, False],
           ''z_scores_'' \<mapsto> FloatArr [Fin 25, Fin (- 15)],
           ''threshold_'' \<mapsto> PyFloat (Fin (1 / 4)),
           ''detected_doublet_rate_'' \<mapsto> PyFloat (Fin (1 / 2)),
           ''detectable_doublet_fraction_'' \<mapsto> PyFloat (Fin 0),
           ''overall_doublet_rate_'' \<mapsto> PyFloat PInf))"
  by (simp add: call_doublets_def example_scored_def np_broadcast2_def fraction_above_def
      f_sub_def Let_def)

theorem overall_doublet_rate_witness:
  "\<exists>self' Ld_obs Ld_sim d f.
     (case Some (Fin (1 / 4)) of
        None \<Rightarrow> automatic_threshold example_ext
                 (example_scored [Fin (1 / 10), Fin (1 / 10), Fin (1 / 5), Fin (1 / 5)])
      | Some t \<Rightarrow> Inr t) = Inr (Fin (1 / 4)) \<and>
     call_doublets example_ext
       (example_scored [Fin (1 / 10), Fin (1 / 10), Fin (1 / 5), Fin (1 / 5)]) (Some (Fin (1 / 4)))
       = Inr self' \<and>
     example_scored [Fin (1 / 10), Fin (1 / 10), Fin (1 / 5), Fin (1 / 5)] ''doublet_scores_obs_''
       = Some (FloatArr Ld_obs) \<and>
     example_scored [Fin (1 / 10), Fin (1 / 10), Fin (1 / 5), Fin (1 / 5)] ''doublet_scores_sim_''
       = Some (FloatArr Ld_sim) \<and>
     d = fraction_above (Fin (1 / 4)) Ld_obs \<and> f = fraction_above (Fin (1 / 4)) Ld_sim \<and>
     self' ''detected_doublet_rate_'' = Some (PyFloat d) \<and>
     self' ''detectable_doublet_fraction_'' = Some (PyFloat f) \<and>
     self' ''overall_doublet_rate_'' = Some (PyFloat (f_div d f)) \<and>
     f = Fin 0 \<and> \<not> is_finite (f_div d f)"
proof -
  have h: "(case Some (Fin (1 / 4)) of
        None \<Rightarrow> automatic_threshold example_ext
                 (example_scored [Fin (1 / 10), Fin (1 / 10), Fin (1 / 5), Fin (1 / 5)])
      | Some t \<Rightarrow> Inr t) = Inr (Fin (1 / 4))" by simp
  from overall_doublet_rate [OF h example_call_quarter]
  obtain Ld_obs Ld_sim d f where
    a: "example_scored [Fin (1 / 10), Fin (1 / 10), Fin (1 / 5), Fin (1 / 5)] ''doublet_scores_obs_''
       = Some (FloatArr Ld_obs)"
      "example_scored [Fin (1 / 10), Fin (1 / 10), Fin (1 / 5), Fin (1 / 5)] ''doublet_scores_sim_''
       = Some (FloatArr Ld_sim)"
      "d = fraction_above (Fin (1 / 4)) Ld_obs" "f = fraction_above (Fin (1 / 4)) Ld_sim"
    and b: "((example_scored [Fin (1 / 10), Fin (1 / 10), Fin (1 / 5), Fin (1 / 5)])
          (''predicted_doublets_'' \<mapsto> BoolArr [True, False],
           ''z_scores_'' \<mapsto> FloatArr [Fin 25, Fin (- 15)],
           ''threshold_'' \<mapsto> PyFloat (Fin (1 / 4)),
           ''detected_doublet_rate_'' \<mapsto> PyFloat (Fin (1 / 2)),
           ''detectable_doublet_fraction_'' \<mapsto> PyFloat (Fin 0),
           ''overall_doublet_rate_'' \<mapsto> PyFloat PInf)) ''detectable_doublet_fraction_'' = Some (PyFloat f)"
       "((example_scored [Fin (1 / 10), Fin (1 / 10), Fin (1 / 5), Fin (1 / 5)])
          (''predicted_doublets_'' \<mapsto> BoolArr [True, False],
           ''z_scores_'' \<mapsto> FloatArr [Fin 25, Fin (- 15)],
           ''threshold_'' \<mapsto> PyFloat (Fin (1 / 4)),
           ''detected_doublet_rate_'' \<mapsto> PyFloat (Fin (1 / 2)),
           ''detectable_doublet_fraction_'' \<mapsto> PyFloat (Fin 0),
           ''overall_doublet_rate_'' \<mapsto> PyFloat PInf)) ''detected_doublet_rate_'' = Some (PyFloat d)"
       "((example_scored [Fin (1 / 10), Fin (1 / 10), Fin (1 / 5), Fin (1 / 5)])
          (''predicted_doublets_'' \<mapsto> BoolArr [True, False],
           ''z_scores_'' \<mapsto> FloatArr [Fin 25, Fin (- 15)],
           ''threshold_'' \<mapsto> PyFloat (Fin (1 / 4)),
           ''detected_doublet_rate_'' \<mapsto> PyFloat (Fin (1 / 2)),
           ''detectable_doublet_fraction_'' \<mapsto> PyFloat (Fin 0),
           ''overall_doublet_rate_'' \<mapsto> PyFloat PInf)) ''overall_doublet_rate_'' = Some (PyFloat (f_div d f))"
    and c: "f = Fin 0 \<longrightarrow> \<not> is_finite (f_div d f)"
    by blast
  from b(1) have f0: "f = Fin 0" by simp
  with c have nf: "\<not> is_finite (f_div d f)" by blast
  show ?thesis
    using h example_call_quarter a b f0 nf by blast
qed

end
